theory Spec2Isabelle
  imports Complex_Main "HOL-Library.AList"
begin

section \<open>Timestamps and periods (nucleo/filtros.py)\<close>

text \<open>
  A \<^verbatim>\<open>pd.Timestamp\<close> is a count of nanoseconds since 1970-01-01T00:00; a
  \<^verbatim>\<open>timedelta\<close> is a count of nanoseconds too, so both are integers here and
  subtraction and addition are the integer ones. The bounds of the 64-bit representation
  (years 1677 to 2262) are not modelled.
\<close>

type_synonym marca_tiempo = int

definition un_dia :: int where
  "un_dia = 86400000000000"

definition timedelta_days :: "int \<Rightarrow> int" where
  "timedelta_days n = n * un_dia"

text \<open>
  Calendar dates are written through the proleptic Gregorian ordinal of Python's
  \<^verbatim>\<open>datetime\<close> module (\<^verbatim>\<open>_ymd2ord\<close>); the ordinal of 1970-01-01 is 719163.
  \<open>fecha_civil y m d\<close> is the timestamp of midnight of that date.
\<close>

definition es_bisiesto :: "int \<Rightarrow> bool" where
  "es_bisiesto y = (y mod 4 = 0 \<and> (y mod 100 \<noteq> 0 \<or> y mod 400 = 0))"

definition dias_antes_del_anio :: "int \<Rightarrow> int" where
  "dias_antes_del_anio anio = (let y = anio - 1 in y * 365 + y div 4 - y div 100 + y div 400)"

definition dias_antes_del_mes :: "int \<Rightarrow> nat \<Rightarrow> int" where
  "dias_antes_del_mes anio mes =
     ([0, 0, 31, 59, 90, 120, 151, 181, 212, 243, 273, 304, 334] ! mes)
       + (if mes > 2 \<and> es_bisiesto anio then 1 else 0)"

definition ordinal :: "int \<Rightarrow> nat \<Rightarrow> int \<Rightarrow> int" where
  "ordinal anio mes dia = dias_antes_del_anio anio + dias_antes_del_mes anio mes + dia"

definition fecha_civil :: "int \<Rightarrow> nat \<Rightarrow> int \<Rightarrow> marca_tiempo" where
  "fecha_civil anio mes dia = (ordinal anio mes dia - 719163) * un_dia"

text \<open>\<^verbatim>\<open>ComparadorPeriodos.obtener_periodos\<close>, lines 56 to 73.\<close>

definition obtener_periodos ::
  "marca_tiempo \<Rightarrow> marca_tiempo \<Rightarrow> (marca_tiempo \<times> marca_tiempo) \<times> (marca_tiempo \<times> marca_tiempo)" where
  "obtener_periodos fecha_inicio fecha_fin =
     (let duracion = fecha_fin - fecha_inicio;
          inicio_anterior = fecha_inicio - duracion - timedelta_days 1;
          fin_anterior = fecha_inicio - timedelta_days 1
      in ((fecha_inicio, fecha_fin), (inicio_anterior, fin_anterior)))"

text \<open>
  \<^verbatim>\<open>ComparadorPeriodos.comparar_metricas\<close>, lines 75 to 94. The returned dict is a
  record; Python floats are idealised as real numbers.
\<close>

record comparacion =
  actual :: real
  anterior :: real
  diferencia :: real
  variacion_pct :: real

definition comparar_metricas :: "real \<Rightarrow> real \<Rightarrow> comparacion" where
  "comparar_metricas valor_actual valor_anterior =
     (let diferencia = valor_actual - valor_anterior;
          variacion_pct =
            (if valor_anterior \<noteq> 0 then (diferencia / valor_anterior) * 100 else 0)
      in \<lparr> actual = valor_actual, anterior = valor_anterior,
           diferencia = diferencia, variacion_pct = variacion_pct \<rparr>)"

section \<open>Column names (nucleo/normalizacion.py, nucleo/contratos.py)\<close>

text \<open>
  A Python \<^verbatim>\<open>str\<close> is a sequence of code points. The model covers the code
  points U+0000 to U+00FF: a \<open>char\<close> is read as the code point of its number, so
  \<open>CHR 0xF3\<close> is the letter o with acute accent and \<open>CHR 0xE9\<close> the letter e with acute
  accent. \<^verbatim>\<open>str.lower\<close> maps this range into itself.
\<close>

definition es_espacio :: "char \<Rightarrow> bool" where
  \<comment> \<open>\<^verbatim>\<open>str.isspace\<close> and the regular expression class \<^verbatim>\<open>\s\<close> on one code point\<close>
  "es_espacio c =
     (let n = (of_char c :: nat)
      in (9 \<le> n \<and> n \<le> 13) \<or> (28 \<le> n \<and> n \<le> 32) \<or> n = 133 \<or> n = 160)"

definition minuscula :: "char \<Rightarrow> char" where
  \<comment> \<open>\<^verbatim>\<open>str.lower\<close> on one code point: A to Z, and U+00C0 to U+00DE but the sign U+00D7\<close>
  "minuscula c =
     (let n = (of_char c :: nat)
      in if (65 \<le> n \<and> n \<le> 90) \<or> (192 \<le> n \<and> n \<le> 222 \<and> n \<noteq> 215)
         then char_of (n + 32) else c)"

definition strip :: "string \<Rightarrow> string" where
  "strip s = rev (dropWhile es_espacio (rev (dropWhile es_espacio s)))"

definition lower :: "string \<Rightarrow> string" where
  "lower s = map minuscula s"

function colapsar_espacios :: "string \<Rightarrow> string" where
  \<comment> \<open>\<^verbatim>\<open>re.sub(r"\s+", " ", nombre)\<close>: every maximal run of whitespace becomes one space\<close>
  "colapsar_espacios [] = []"
| "colapsar_espacios (c # cs) =
     (if es_espacio c then CHR '' '' # colapsar_espacios (dropWhile es_espacio cs)
      else c # colapsar_espacios cs)"
  by pat_completeness auto
termination
  by (relation "measure length") (auto simp: length_dropWhile_le le_imp_less_Suc)

definition reemplazar :: "char \<Rightarrow> char \<Rightarrow> string \<Rightarrow> string" where
  \<comment> \<open>\<^verbatim>\<open>str.replace\<close> with one-character arguments\<close>
  "reemplazar a b s = map (\<lambda>c. if c = a then b else c) s"

text \<open>\<^verbatim>\<open>NormalizadorColumnas._limpiar_nombre_columna\<close>, lines 24 to 36.\<close>

definition limpiar_nombre_columna :: "string \<Rightarrow> string" where
  "limpiar_nombre_columna nombre =
     (let nombre = lower (strip nombre);
          nombre = colapsar_espacios nombre;
          nombre = reemplazar (CHR '' '') (CHR ''_'') nombre
      in nombre)"

text \<open>
  \<^verbatim>\<open>EsquemaDatosVentas\<close>: the dict \<^verbatim>\<open>alias_a_estandar\<close> is an association list
  read with \<open>map_of\<close> (the literal of the source has no repeated key).
\<close>

record esquema_datos_ventas =
  columnas_requeridas :: "string list"
  alias_a_estandar :: "(string \<times> string) list"
  columnas_opcionales :: "string list"

definition esquema_por_defecto :: esquema_datos_ventas where
  "esquema_por_defecto =
     \<lparr> columnas_requeridas =
         [''fecha'', ''id_orden'', ''id_cliente'', ''id_producto'', ''cantidad'',
          ''precio'', ''costo'', ''region'', ''canal''],
       alias_a_estandar =
         [(''date'', ''fecha''), (''fecha'', ''fecha''),
          (''order_id'', ''id_orden''), (''id_orden'', ''id_orden''),
          (''customer_id'', ''id_cliente''), (''id_cliente'', ''id_cliente''),
          (''product_id'', ''id_producto''), (''id_producto'', ''id_producto''),
          (''qty'', ''cantidad''), (''cantidad'', ''cantidad''),
          (''price'', ''precio''), (''precio'', ''precio''),
          (''cost'', ''costo''), (''costo'', ''costo''),
          (''region'', ''region''), (''regi'' @ [CHR 0xF3] @ ''n'', ''region''),
          (''canal'', ''canal''), (''channel'', ''canal'')],
       columnas_opcionales = [''estado'', ''categoria'', ''nombre_producto''] \<rparr>"

text \<open>
  \<^verbatim>\<open>NormalizadorColumnas._construir_mapa_renombre\<close>, lines 38 to 53: the dict from each
  original label to its new label, built in the order of the columns.
\<close>

definition nombre_estandar :: "esquema_datos_ventas \<Rightarrow> string \<Rightarrow> string" where
  "nombre_estandar esquema col =
     (let col_limpia = limpiar_nombre_columna col
      in case map_of (alias_a_estandar esquema) col_limpia of
           Some estandar \<Rightarrow> estandar
         | None \<Rightarrow> col_limpia)"

definition construir_mapa_renombre ::
  "esquema_datos_ventas \<Rightarrow> string list \<Rightarrow> (string \<times> string) list" where
  "construir_mapa_renombre esquema columnas_originales =
     foldl (\<lambda>mapa col. AList.update col (nombre_estandar esquema col) mapa) [] columnas_originales"

section \<open>Tables, exceptions and the object store\<close>

text \<open>
  A cell of a \<^verbatim>\<open>DataFrame\<close> is a missing value (\<^verbatim>\<open>NaN\<close>, \<^verbatim>\<open>None\<close>, \<^verbatim>\<open>NaT\<close>), a
  number, a \<^verbatim>\<open>str\<close> or a \<^verbatim>\<open>Timestamp\<close>. A table is its row count
  (\<^verbatim>\<open>len(tabla)\<close>) and its columns in order, each a label and the cells of the column;
  labels may repeat, as they can after a renaming.
\<close>

datatype celda = Nulo | Numero real | Texto string | Marca marca_tiempo

record tabla =
  indice :: nat
  columnas :: "(string \<times> celda list) list"

datatype error = KeyError | TypeError | ValueError | IndexError

definition etiquetas :: "tabla \<Rightarrow> string list" where
  \<comment> \<open>\<^verbatim>\<open>tabla.columns\<close>\<close>
  "etiquetas t = map fst (columnas t)"

definition vacia :: "tabla \<Rightarrow> bool" where
  \<comment> \<open>\<^verbatim>\<open>tabla.empty\<close>: one of the two axes has length 0\<close>
  "vacia t = (indice t = 0 \<or> columnas t = [])"


definition seleccionar :: "tabla \<Rightarrow> string \<Rightarrow> celda list list" where
  \<comment> \<open>the columns that carry the label\<close>
  "seleccionar t col = map snd (filter (\<lambda>(c, xs). c = col) (columnas t))"

definition serie :: "tabla \<Rightarrow> string \<Rightarrow> error + celda list" where
  \<comment> \<open>\<^verbatim>\<open>tabla[col]\<close> used as a \<^verbatim>\<open>Series\<close>: a missing label raises \<^verbatim>\<open>KeyError\<close>; a
      repeated label gives a \<^verbatim>\<open>DataFrame\<close> instead, and the call the code makes on it
      is taken to raise (\<^verbatim>\<open>ValueError\<close> stands for whichever exception that is)\<close>
  "serie t col =
     (case seleccionar t col of
        [] \<Rightarrow> Inl KeyError
      | [xs] \<Rightarrow> Inr xs
      | _ \<Rightarrow> Inl ValueError)"

definition poner ::
  "string \<Rightarrow> celda list \<Rightarrow> (string \<times> celda list) list \<Rightarrow> (string \<times> celda list) list" where
  "poner col xs cols =
     (if col \<in> set (map fst cols)
      then map (\<lambda>(c, ys). if c = col then (c, xs) else (c, ys)) cols
      else cols @ [(col, xs)])"

definition poner_columna :: "string \<Rightarrow> celda list \<Rightarrow> tabla \<Rightarrow> tabla" where
  \<comment> \<open>the table after \<^verbatim>\<open>tabla[col] = xs\<close>: every column of that label is replaced
      where it stands; a new label is added last\<close>
  "poner_columna col xs t = t \<lparr> columnas := poner col xs (columnas t) \<rparr>"

definition por_mascara :: "bool list \<Rightarrow> 'a list \<Rightarrow> 'a list" where
  "por_mascara m xs = map snd (filter fst (zip m xs))"

definition filtrar_filas :: "bool list \<Rightarrow> tabla \<Rightarrow> tabla" where
  \<comment> \<open>the table \<^verbatim>\<open>tabla[m]\<close> for a boolean \<^verbatim>\<open>Series\<close> m over the rows\<close>
  "filtrar_filas m t =
     \<lparr> indice = length (filter id m),
       columnas = map (\<lambda>(c, xs). (c, por_mascara m xs)) (columnas t) \<rparr>"

definition es_nulo :: "celda \<Rightarrow> bool" where
  \<comment> \<open>\<^verbatim>\<open>isna\<close> on one cell\<close>
  "es_nulo c = (c = Nulo)"

definition contar :: "bool list \<Rightarrow> nat" where
  \<comment> \<open>\<^verbatim>\<open>.sum()\<close> of a boolean \<^verbatim>\<open>Series\<close>\<close>
  "contar m = length (filter id m)"

definition alguno :: "bool list \<Rightarrow> bool" where
  \<comment> \<open>\<^verbatim>\<open>.any()\<close> of a boolean \<^verbatim>\<open>Series\<close>\<close>
  "alguno m = list_ex id m"

text \<open>
  Comparison of a column with a number (\<^verbatim>\<open>tabla[col] < 0\<close>, \<^verbatim>\<open>tabla[col] >= 0\<close>):
  a missing value compares false, and a \<^verbatim>\<open>str\<close> or a \<^verbatim>\<open>Timestamp\<close> against a number
  raises \<^verbatim>\<open>TypeError\<close>. Comparison with a \<^verbatim>\<open>Timestamp\<close> is alike, with numbers and
  \<^verbatim>\<open>str\<close> raising. Equality with a \<^verbatim>\<open>str\<close> never raises.
\<close>

fun traverse :: "('a \<Rightarrow> error + 'b) \<Rightarrow> 'a list \<Rightarrow> error + 'b list" where
  "traverse f [] = Inr []"
| "traverse f (x # xs) =
     (case f x of
        Inl e \<Rightarrow> Inl e
      | Inr y \<Rightarrow> (case traverse f xs of Inl e \<Rightarrow> Inl e | Inr ys \<Rightarrow> Inr (y # ys)))"

fun comparar_numero :: "(real \<Rightarrow> bool) \<Rightarrow> celda \<Rightarrow> error + bool" where
  "comparar_numero p Nulo = Inr False"
| "comparar_numero p (Numero x) = Inr (p x)"
| "comparar_numero p (Texto s) = Inl TypeError"
| "comparar_numero p (Marca t) = Inl TypeError"

fun comparar_marca :: "(marca_tiempo \<Rightarrow> bool) \<Rightarrow> celda \<Rightarrow> error + bool" where
  "comparar_marca p Nulo = Inr False"
| "comparar_marca p (Marca t) = Inr (p t)"
| "comparar_marca p (Numero x) = Inl TypeError"
| "comparar_marca p (Texto s) = Inl TypeError"

definition igual_texto :: "string \<Rightarrow> celda \<Rightarrow> bool" where
  "igual_texto v c = (c = Texto v)"

definition entonces :: "error + 'a \<Rightarrow> ('a \<Rightarrow> error + 'b) \<Rightarrow> error + 'b" where
  \<comment> \<open>sequencing of two steps of which the first may raise\<close>
  "entonces r f = (case r of Inl e \<Rightarrow> Inl e | Inr x \<Rightarrow> f x)"

text \<open>
  The conversions of pandas are parameters of the model: \<open>fecha_de formato columna c\<close> is
  what \<^verbatim>\<open>pd.to_datetime\<close> makes of the cell c (a number or a \<^verbatim>\<open>str\<close>) of a column
  under an optional format, \<open>numero_de c\<close> what \<^verbatim>\<open>pd.to_numeric\<close> makes of a cell that
  is a \<^verbatim>\<open>str\<close> or a \<^verbatim>\<open>Timestamp\<close>. A conversion fails (\<open>NoConvertible\<close>: it raises
  under \<^verbatim>\<open>errors="raise"\<close> and gives a missing value under \<^verbatim>\<open>errors="coerce"\<close>),
  gives a missing value without failing (\<open>Ausente\<close>), or gives a value.
\<close>

datatype 'a conversion = NoConvertible | Ausente | Valor 'a

record conversor =
  fecha_de :: "string option \<Rightarrow> celda list \<Rightarrow> celda \<Rightarrow> marca_tiempo conversion"
  numero_de :: "celda \<Rightarrow> real conversion"

definition to_datetime_celda ::
  "conversor \<Rightarrow> string option \<Rightarrow> celda list \<Rightarrow> celda \<Rightarrow> marca_tiempo conversion" where
  "to_datetime_celda cv formato columna c =
     (case c of
        Nulo \<Rightarrow> Ausente
      | Marca t \<Rightarrow> Valor t
      | _ \<Rightarrow> fecha_de cv formato columna c)"

definition to_numeric_celda :: "conversor \<Rightarrow> celda \<Rightarrow> real conversion" where
  "to_numeric_celda cv c =
     (case c of
        Nulo \<Rightarrow> Ausente
      | Numero x \<Rightarrow> Valor x
      | _ \<Rightarrow> numero_de cv c)"

definition to_datetime_coerce :: "conversor \<Rightarrow> celda list \<Rightarrow> celda list" where
  \<comment> \<open>\<^verbatim>\<open>pd.to_datetime(columna, errors="coerce")\<close>\<close>
  "to_datetime_coerce cv columna =
     map (\<lambda>c. case to_datetime_celda cv None columna c of Valor t \<Rightarrow> Marca t | _ \<Rightarrow> Nulo) columna"

definition to_numeric_coerce :: "conversor \<Rightarrow> celda list \<Rightarrow> celda list" where
  \<comment> \<open>\<^verbatim>\<open>pd.to_numeric(columna, errors="coerce")\<close>\<close>
  "to_numeric_coerce cv columna =
     map (\<lambda>c. case to_numeric_celda cv c of Valor x \<Rightarrow> Numero x | _ \<Rightarrow> Nulo) columna"

definition fillna :: "real \<Rightarrow> celda list \<Rightarrow> celda list" where
  "fillna v columna = map (\<lambda>c. if es_nulo c then Numero v else c) columna"

text \<open>
  Tables are objects: a variable holds a reference, and two variables may hold the same
  one. The store is the list of the objects allocated so far, a reference is a position
  in it. A program takes the store and returns its result, or the exception it raised,
  and the store it leaves.
\<close>

type_synonym almacen = "tabla list"

type_synonym 'a programa = "almacen \<Rightarrow> (error + 'a) \<times> almacen"

definition devolver :: "'a \<Rightarrow> 'a programa" where
  "devolver x s = (Inr x, s)"

definition elevar :: "error + 'a \<Rightarrow> 'a programa" where
  \<comment> \<open>a computation that touches no object: its value, or the exception it raises\<close>
  "elevar r s = (r, s)"

definition ligar :: "'a programa \<Rightarrow> ('a \<Rightarrow> 'b programa) \<Rightarrow> 'b programa" where
  "ligar m f s = (case m s of (Inl e, s') \<Rightarrow> (Inl e, s') | (Inr x, s') \<Rightarrow> f x s')"

definition df_leer :: "nat \<Rightarrow> tabla programa" where
  \<comment> \<open>the present value of the object\<close>
  "df_leer r s = (Inr (s ! r), s)"

definition df_nueva :: "tabla \<Rightarrow> nat programa" where
  \<comment> \<open>a new object; its reference is returned\<close>
  "df_nueva t s = (Inr (length s), s @ [t])"

definition df_escribir :: "nat \<Rightarrow> tabla \<Rightarrow> unit programa" where
  \<comment> \<open>the object is changed in place\<close>
  "df_escribir r t s = (Inr (), s[r := t])"

definition df_copy :: "nat \<Rightarrow> nat programa" where
  \<comment> \<open>\<^verbatim>\<open>tabla.copy()\<close>\<close>
  "df_copy r = ligar (df_leer r) df_nueva"

definition df_serie :: "nat \<Rightarrow> string \<Rightarrow> celda list programa" where
  \<comment> \<open>\<^verbatim>\<open>tabla[col]\<close>\<close>
  "df_serie r col = ligar (df_leer r) (\<lambda>t. elevar (serie t col))"

definition df_asignar :: "nat \<Rightarrow> string \<Rightarrow> celda list \<Rightarrow> unit programa" where
  \<comment> \<open>\<^verbatim>\<open>tabla[col] = xs\<close>: the object the variable refers to is changed\<close>
  "df_asignar r col xs = ligar (df_leer r) (\<lambda>t. df_escribir r (poner_columna col xs t))"

definition df_indexar :: "nat \<Rightarrow> bool list \<Rightarrow> nat programa" where
  \<comment> \<open>\<^verbatim>\<open>tabla[m]\<close>: the rows where m holds, as a new object\<close>
  "df_indexar r m = ligar (df_leer r) (\<lambda>t. df_nueva (filtrar_filas m t))"

definition df_len :: "nat \<Rightarrow> nat programa" where
  \<comment> \<open>\<^verbatim>\<open>len(tabla)\<close>\<close>
  "df_len r = ligar (df_leer r) (\<lambda>t. devolver (indice t))"

section \<open>The normalizer (nucleo/normalizacion.py)\<close>

definition renombrar :: "(string \<times> string) list \<Rightarrow> tabla \<Rightarrow> tabla" where
  \<comment> \<open>the table \<^verbatim>\<open>tabla.rename(columns=mapa)\<close>: a label that is no key is kept\<close>
  "renombrar mapa t =
     t \<lparr> columnas :=
           map (\<lambda>(c, xs). (case map_of mapa c of Some n \<Rightarrow> n | None \<Rightarrow> c, xs)) (columnas t) \<rparr>"

text \<open>\<^verbatim>\<open>NormalizadorColumnas.normalizar\<close>, lines 55 to 65.\<close>

definition normalizar :: "esquema_datos_ventas \<Rightarrow> nat \<Rightarrow> nat programa" where
  "normalizar esquema tabla0 =
     ligar (df_copy tabla0) (\<lambda>tabla.
     ligar (df_leer tabla) (\<lambda>t.
     let mapa_renombre = construir_mapa_renombre esquema (etiquetas t) in
     ligar (df_nueva (renombrar mapa_renombre t)) (\<lambda>tabla.
     devolver tabla)))"

section \<open>The validator (nucleo/validacion.py)\<close>

text \<open>
  The messages are f-strings; each constructor stands for one template of the source,
  with the values it formats.
\<close>

datatype mensaje =
    ExcedeMaximoFilas nat int
  | FaltanColumnas "string list"
  | FechaNoConvertible
  | NumeroNoConvertible string
  | ValoresVacios string
  | ValoresNegativos string
  | FilasFechaInvalida nat
  | NoNumericosReemplazados string nat
  | FilasNegativasEliminadas string nat

record configuracion_aplicacion =
  formato_fecha :: "string option"
  max_filas_csv :: int

record resultado_validacion =
  es_valido :: bool
  errores :: "mensaje list"
  advertencias :: "mensaje list"

text \<open>
  \<^verbatim>\<open>_columna_fecha_convertible\<close> and \<^verbatim>\<open>_columna_numerica_convertible\<close>, lines 84 to
  100: any exception of the selection or of the conversion is caught and gives False.
\<close>

definition columna_fecha_convertible ::
  "conversor \<Rightarrow> configuracion_aplicacion \<Rightarrow> tabla \<Rightarrow> string \<Rightarrow> bool" where
  "columna_fecha_convertible cv config t columna =
     (case serie t columna of
        Inl e \<Rightarrow> False
      | Inr xs \<Rightarrow>
          (case formato_fecha config of
             None \<Rightarrow> list_all (\<lambda>c. to_datetime_celda cv None xs c \<noteq> NoConvertible) xs
           | Some f \<Rightarrow>
               if f \<noteq> [] then list_all (\<lambda>c. to_datetime_celda cv (Some f) xs c \<noteq> NoConvertible) xs
               else list_all (\<lambda>c. to_datetime_celda cv None xs c \<noteq> NoConvertible) xs))"

definition columna_numerica_convertible :: "conversor \<Rightarrow> tabla \<Rightarrow> string \<Rightarrow> bool" where
  "columna_numerica_convertible cv t columna =
     (case serie t columna of
        Inl e \<Rightarrow> False
      | Inr xs \<Rightarrow> list_all (\<lambda>c. to_numeric_celda cv c \<noteq> NoConvertible) xs)"

definition hay_vacios :: "tabla \<Rightarrow> string \<Rightarrow> error + bool" where
  \<comment> \<open>\<^verbatim>\<open>tabla[col].isna().any()\<close>\<close>
  "hay_vacios t col = entonces (serie t col) (\<lambda>xs. Inr (alguno (map es_nulo xs)))"

definition hay_negativos :: "tabla \<Rightarrow> string \<Rightarrow> error + bool" where
  \<comment> \<open>\<^verbatim>\<open>(tabla[col] < 0).any()\<close>\<close>
  "hay_negativos t col =
     entonces (serie t col) (\<lambda>xs.
     entonces (traverse (comparar_numero (\<lambda>x. x < 0)) xs) (\<lambda>m.
     Inr (alguno m)))"

text \<open>\<^verbatim>\<open>ValidadorEsquemaCSV.validar\<close>, lines 24 to 82.\<close>

definition validar ::
  "conversor \<Rightarrow> esquema_datos_ventas \<Rightarrow> configuracion_aplicacion \<Rightarrow> tabla
     \<Rightarrow> error + resultado_validacion" where
  "validar cv esquema config t =
     (if int (indice t) > max_filas_csv config then
        Inr \<lparr> es_valido = False,
              errores = [ExcedeMaximoFilas (indice t) (max_filas_csv config)],
              advertencias = [] \<rparr>
      else
        let columnas_presentes = set (etiquetas t);
            faltantes = filter (\<lambda>c. c \<notin> columnas_presentes) (columnas_requeridas esquema);
            errores = (if faltantes \<noteq> [] then [FaltanColumnas faltantes] else [])
        in
        if errores \<noteq> [] then
          Inr \<lparr> es_valido = False, errores = errores, advertencias = [] \<rparr>
        else
          let errores =
                (if \<not> columna_fecha_convertible cv config t ''fecha''
                 then errores @ [FechaNoConvertible] else errores);
              errores =
                foldl (\<lambda>errores col_num.
                         if \<not> columna_numerica_convertible cv t col_num
                         then errores @ [NumeroNoConvertible col_num] else errores)
                  errores [''cantidad'', ''precio'', ''costo''];
              advertencias = []
          in
          entonces (hay_vacios t ''cantidad'') (\<lambda>v.
          let advertencias = (if v then advertencias @ [ValoresVacios ''cantidad''] else advertencias) in
          entonces (hay_vacios t ''precio'') (\<lambda>v.
          let advertencias = (if v then advertencias @ [ValoresVacios ''precio''] else advertencias) in
          entonces (hay_vacios t ''costo'') (\<lambda>v.
          let advertencias = (if v then advertencias @ [ValoresVacios ''costo''] else advertencias) in
          entonces (hay_negativos t ''cantidad'') (\<lambda>n.
          let advertencias = (if n then advertencias @ [ValoresNegativos ''cantidad''] else advertencias) in
          entonces (hay_negativos t ''precio'') (\<lambda>n.
          let advertencias = (if n then advertencias @ [ValoresNegativos ''precio''] else advertencias) in
          entonces (hay_negativos t ''costo'') (\<lambda>n.
          let advertencias = (if n then advertencias @ [ValoresNegativos ''costo''] else advertencias);
              es_valido = (length errores = 0)
          in Inr \<lparr> es_valido = es_valido, errores = errores, advertencias = advertencias \<rparr>)))))))"

section \<open>The cleaner and the transformer (nucleo/etl.py)\<close>

record resultado_limpieza =
  filas_eliminadas :: int
  advertencias_limpieza :: "mensaje list"

definition df_dropna :: "nat \<Rightarrow> string \<Rightarrow> nat programa" where
  \<comment> \<open>\<^verbatim>\<open>tabla.dropna(subset=[col])\<close>: a new object\<close>
  "df_dropna r col =
     ligar (df_serie r col) (\<lambda>xs. df_indexar r (map (\<lambda>c. \<not> es_nulo c) xs))"

definition df_comparar :: "nat \<Rightarrow> string \<Rightarrow> (real \<Rightarrow> bool) \<Rightarrow> bool list programa" where
  \<comment> \<open>\<^verbatim>\<open>tabla[col] < 0\<close>, \<^verbatim>\<open>tabla[col] >= 0\<close>, \<^verbatim>\<open>tabla[col] > 0\<close>\<close>
  "df_comparar r col p =
     ligar (df_serie r col) (\<lambda>xs. elevar (traverse (comparar_numero p) xs))"

fun para_cada :: "'a list \<Rightarrow> ('a \<Rightarrow> 'b \<Rightarrow> 'b programa) \<Rightarrow> 'b \<Rightarrow> 'b programa" where
  \<comment> \<open>a \<^verbatim>\<open>for\<close> loop over a list, threading the local variables the body updates\<close>
  "para_cada [] cuerpo v = devolver v"
| "para_cada (x # xs) cuerpo v = ligar (cuerpo x v) (para_cada xs cuerpo)"

definition convertir_numerica :: "conversor \<Rightarrow> nat \<Rightarrow> string \<Rightarrow> mensaje list \<Rightarrow> mensaje list programa" where
  \<comment> \<open>the body of the loop of lines 43 to 51\<close>
  "convertir_numerica cv tabla col avisos =
     ligar (df_serie tabla col) (\<lambda>xs.
     ligar (df_asignar tabla col (to_numeric_coerce cv xs)) (\<lambda>_.
     ligar (df_serie tabla col) (\<lambda>xs.
     let nulos = contar (map es_nulo xs) in
     if nulos > 0 then
       ligar (df_serie tabla col) (\<lambda>xs.
       ligar (df_asignar tabla col (fillna 0 xs)) (\<lambda>_.
       devolver (avisos @ [NoNumericosReemplazados col nulos])))
     else devolver avisos)))"

definition eliminar_negativos ::
  "nat \<Rightarrow> string \<Rightarrow> nat \<Rightarrow> mensaje list \<Rightarrow> (nat \<times> mensaje list) programa" where
  \<comment> \<open>\<^verbatim>\<open>if n > 0: advertencias.append(...); tabla = tabla[tabla[col] >= 0]\<close>\<close>
  "eliminar_negativos tabla col n avisos =
     (if n > 0 then
        ligar (df_comparar tabla col (\<lambda>x. x \<ge> 0)) (\<lambda>m.
        ligar (df_indexar tabla m) (\<lambda>tabla.
        devolver (tabla, avisos @ [FilasNegativasEliminadas col n])))
      else devolver (tabla, avisos))"

text \<open>\<^verbatim>\<open>LimpiadorDatos.limpiar\<close>, lines 28 to 84.\<close>

definition limpiar :: "conversor \<Rightarrow> nat \<Rightarrow> (nat \<times> resultado_limpieza) programa" where
  "limpiar cv tabla0 =
     ligar (df_copy tabla0) (\<lambda>tabla.
     ligar (df_len tabla) (\<lambda>filas_iniciales.
     ligar (df_serie tabla ''fecha'') (\<lambda>xs.
     ligar (df_asignar tabla ''fecha'' (to_datetime_coerce cv xs)) (\<lambda>_.
     ligar (df_serie tabla ''fecha'') (\<lambda>xs.
     let filas_sin_fecha = contar (map es_nulo xs);
         advertencias = (if filas_sin_fecha > 0 then [FilasFechaInvalida filas_sin_fecha] else [])
     in
     ligar (df_dropna tabla ''fecha'') (\<lambda>tabla.
     ligar (para_cada [''cantidad'', ''precio'', ''costo''] (convertir_numerica cv tabla) advertencias)
       (\<lambda>advertencias.
     ligar (df_comparar tabla ''cantidad'' (\<lambda>x. x < 0)) (\<lambda>m.
     let negativas = contar m in
     ligar (eliminar_negativos tabla ''cantidad'' negativas advertencias) (\<lambda>(tabla, advertencias).
     ligar (df_comparar tabla ''precio'' (\<lambda>x. x < 0)) (\<lambda>m.
     let precio_neg = contar m in
     ligar (df_comparar tabla ''costo'' (\<lambda>x. x < 0)) (\<lambda>m.
     let costo_neg = contar m in
     ligar (eliminar_negativos tabla ''precio'' precio_neg advertencias) (\<lambda>(tabla, advertencias).
     ligar (eliminar_negativos tabla ''costo'' costo_neg advertencias) (\<lambda>(tabla, advertencias).
     ligar (df_len tabla) (\<lambda>filas_finales.
     let filas_eliminadas = int filas_iniciales - int filas_finales in
     devolver (tabla, \<lparr> filas_eliminadas = filas_eliminadas,
                        advertencias_limpieza = advertencias \<rparr>)))))))))))))))"

text \<open>
  Arithmetic of two columns, cell by cell: a missing value gives a missing value, and a
  \<^verbatim>\<open>str\<close> or a \<^verbatim>\<open>Timestamp\<close> operand is taken to raise \<^verbatim>\<open>TypeError\<close>.
\<close>

fun operar :: "(real \<Rightarrow> real \<Rightarrow> real) \<Rightarrow> celda \<times> celda \<Rightarrow> error + celda" where
  "operar f (Numero x, Numero y) = Inr (Numero (f x y))"
| "operar f (Nulo, Numero y) = Inr Nulo"
| "operar f (Numero x, Nulo) = Inr Nulo"
| "operar f (Nulo, Nulo) = Inr Nulo"
| "operar f (a, b) = Inl TypeError"

definition operar_columnas ::
  "(real \<Rightarrow> real \<Rightarrow> real) \<Rightarrow> celda list \<Rightarrow> celda list \<Rightarrow> error + celda list" where
  "operar_columnas f xs ys = traverse (operar f) (zip xs ys)"

fun asignar_donde :: "bool list \<Rightarrow> celda list \<Rightarrow> celda list \<Rightarrow> celda list" where
  \<comment> \<open>the column after \<^verbatim>\<open>tabla.loc[mask, col] = valores\<close>, where valores has one cell for
      each row the mask selects, in the order of the rows\<close>
  "asignar_donde (True # m) (a # actuales) (v # valores) = v # asignar_donde m actuales valores"
| "asignar_donde (False # m) (a # actuales) valores = a # asignar_donde m actuales valores"
| "asignar_donde m actuales valores = actuales"

text \<open>\<^verbatim>\<open>TransformadorVentas.transformar\<close>, lines 95 to 107.\<close>

definition transformar :: "nat \<Rightarrow> nat programa" where
  "transformar tabla0 =
     ligar (df_copy tabla0) (\<lambda>tabla.
     ligar (df_serie tabla ''cantidad'') (\<lambda>cantidad.
     ligar (df_serie tabla ''precio'') (\<lambda>precio.
     ligar (elevar (operar_columnas (*) cantidad precio)) (\<lambda>ingresos.
     ligar (df_asignar tabla ''ingresos'' ingresos) (\<lambda>_.
     ligar (df_serie tabla ''cantidad'') (\<lambda>cantidad.
     ligar (df_serie tabla ''costo'') (\<lambda>costo.
     ligar (elevar (operar_columnas (*) cantidad costo)) (\<lambda>costo_total.
     ligar (df_asignar tabla ''costo_total'' costo_total) (\<lambda>_.
     ligar (df_serie tabla ''ingresos'') (\<lambda>ingresos.
     ligar (df_serie tabla ''costo_total'') (\<lambda>costo_total.
     ligar (elevar (operar_columnas (-) ingresos costo_total)) (\<lambda>margen.
     ligar (df_asignar tabla ''margen'' margen) (\<lambda>_.
     ligar (df_len tabla) (\<lambda>n.
     ligar (df_asignar tabla ''margen_porcentaje'' (replicate n (Numero 0))) (\<lambda>_.
     ligar (df_comparar tabla ''ingresos'' (\<lambda>x. x > 0)) (\<lambda>mask.
     ligar (df_serie tabla ''margen'') (\<lambda>margen.
     ligar (df_serie tabla ''ingresos'') (\<lambda>ingresos.
     ligar (elevar (operar_columnas (/) (por_mascara mask margen) (por_mascara mask ingresos)))
       (\<lambda>cociente.
     ligar (df_serie tabla ''margen_porcentaje'') (\<lambda>actuales.
     ligar (df_asignar tabla ''margen_porcentaje''
              (asignar_donde mask actuales cociente)) (\<lambda>_.
     devolver tabla)))))))))))))))))))))"

section \<open>The filter engine (nucleo/filtros.py)\<close>

record filtro_seleccion =
  fecha_inicio :: marca_tiempo
  fecha_fin :: marca_tiempo
  region :: "string option"
  canal :: "string option"
  id_producto :: "string option"

definition df_entre_fechas :: "nat \<Rightarrow> marca_tiempo \<Rightarrow> marca_tiempo \<Rightarrow> bool list programa" where
  \<comment> \<open>\<^verbatim>\<open>(tabla["fecha"] >= inicio) & (tabla["fecha"] <= fin)\<close>\<close>
  "df_entre_fechas r inicio fin =
     ligar (df_serie r ''fecha'') (\<lambda>xs.
     ligar (elevar (traverse (comparar_marca (\<lambda>t. t \<ge> inicio)) xs)) (\<lambda>desde.
     ligar (df_serie r ''fecha'') (\<lambda>xs.
     ligar (elevar (traverse (comparar_marca (\<lambda>t. t \<le> fin)) xs)) (\<lambda>hasta.
     devolver (map (\<lambda>(a, b). a \<and> b) (zip desde hasta))))))"

definition filtrar_por :: "nat \<Rightarrow> string \<Rightarrow> string option \<Rightarrow> string \<Rightarrow> nat programa" where
  \<comment> \<open>\<^verbatim>\<open>if valor and valor != todos: tabla = tabla[tabla[col] == valor]\<close>; \<^verbatim>\<open>None\<close> and
      the empty \<^verbatim>\<open>str\<close> are false\<close>
  "filtrar_por tabla_filtrada col valor todos =
     (case valor of
        None \<Rightarrow> devolver tabla_filtrada
      | Some v \<Rightarrow>
          if v \<noteq> [] \<and> v \<noteq> todos then
            ligar (df_serie tabla_filtrada col) (\<lambda>xs.
            df_indexar tabla_filtrada (map (igual_texto v) xs))
          else devolver tabla_filtrada)"

text \<open>\<^verbatim>\<open>FiltroDatos.aplicar\<close>, lines 27 to 48.\<close>

definition aplicar :: "nat \<Rightarrow> filtro_seleccion \<Rightarrow> nat programa" where
  "aplicar tabla filtros =
     ligar (df_copy tabla) (\<lambda>tabla_filtrada.
     ligar (df_entre_fechas tabla_filtrada (fecha_inicio filtros) (fecha_fin filtros)) (\<lambda>m.
     ligar (df_indexar tabla_filtrada m) (\<lambda>tabla_filtrada.
     ligar (filtrar_por tabla_filtrada ''region'' (region filtros) ''Todas'') (\<lambda>tabla_filtrada.
     ligar (filtrar_por tabla_filtrada ''canal'' (canal filtros) ''Todos'') (\<lambda>tabla_filtrada.
     ligar (filtrar_por tabla_filtrada ''id_producto'' (id_producto filtros) ''Todos'')
       (\<lambda>tabla_filtrada.
     devolver tabla_filtrada))))))"

section \<open>The forecaster (nucleo/pronostico.py)\<close>

text \<open>
  The forecaster and the insight generator only read their tables, so they are functions
  of the value of the table. A cell read as a number is a number or a missing value,
  and a cell read as a date is a \<^verbatim>\<open>Timestamp\<close> or a missing value; the operation made
  on a cell of another kind is taken to raise \<^verbatim>\<open>TypeError\<close>.
\<close>

fun celda_valor :: "celda \<Rightarrow> error + real option" where
  "celda_valor Nulo = Inr None"
| "celda_valor (Numero x) = Inr (Some x)"
| "celda_valor (Texto s) = Inl TypeError"
| "celda_valor (Marca t) = Inl TypeError"


definition valores :: "tabla \<Rightarrow> string \<Rightarrow> error + real option list" where
  "valores t col = entonces (serie t col) (traverse celda_valor)"

definition sumar :: "real option list \<Rightarrow> real" where
  \<comment> \<open>\<^verbatim>\<open>.sum()\<close> of a numeric column: missing values are skipped\<close>
  "sumar vs = sum_list (map (\<lambda>v. case v of Some x \<Rightarrow> x | None \<Rightarrow> 0) vs)"

definition suma_del_grupo :: "'k list \<Rightarrow> real option list \<Rightarrow> 'k \<Rightarrow> real" where
  \<comment> \<open>the sum, over the rows whose key is k, of a numeric column\<close>
  "suma_del_grupo claves vs k = sumar (map snd (filter (\<lambda>(k', v). k' = k) (zip claves vs)))"







section \<open>The insight generator (nucleo/insights.py)\<close>

text \<open>
  The message of an insight is an f-string; each constructor stands for one template
  of the source with the values it formats. Titles hold accented letters, written by
  their code points.
\<close>

datatype texto_insight =
    MensajeSinDatos
  | MensajeSinReferencia
  | MensajeRendimiento real real string
  | MensajeRegionLider celda real real
  | MensajeCanalFuerte celda real
  | MensajeProductoLider celda real real
  | MensajeConcentracion real celda

record insight =
  titulo :: string
  mensaje :: texto_insight
  tipo :: string

definition titulo_sin_datos :: string where
  "titulo_sin_datos = ''Sin datos''"

definition titulo_sin_referencia :: string where
  "titulo_sin_referencia = ''Ingresos sin referencia hist'' @ [CHR 0xF3] @ ''rica''"

definition titulo_rendimiento :: string where
  "titulo_rendimiento = ''Rendimiento vs per'' @ [CHR 0xED] @ ''odo anterior''"

definition titulo_region :: string where
  "titulo_region = ''Regi'' @ [CHR 0xF3] @ ''n l'' @ [CHR 0xED] @ ''der''"

definition titulo_canal :: string where
  "titulo_canal = ''Canal m'' @ [CHR 0xE1] @ ''s fuerte''"

definition titulo_producto :: string where
  "titulo_producto = ''Producto l'' @ [CHR 0xED] @ ''der y rentabilidad''"

definition titulo_concentracion :: string where
  "titulo_concentracion = ''Riesgo de concentraci'' @ [CHR 0xF3] @ ''n''"

text \<open>
  \<^verbatim>\<open>groupby(col)\<close> leaves out the rows whose key is missing and lists the groups in
  the sorted order of their keys; \<^verbatim>\<open>sort_values\<close> takes the rows in the order of an
  argsort of the column, a quicksort, which does not fix the order of rows of equal
  value. Both orders belong to pandas and are parameters of the model:
  \<open>ordenar_claves\<close> is the sort of the distinct keys of a \<^verbatim>\<open>groupby\<close>, and
  \<open>argsort_desc\<close> gives, for the values of a column, the positions of the rows in the
  order of \<^verbatim>\<open>sort_values(ascending=False)\<close>. The numbers of Python, floats, are read as
  real numbers, in the sums as in the comparisons with the thresholds.
\<close>

record ordenacion =
  ordenar_claves :: "celda list \<Rightarrow> celda list"
  argsort_desc :: "real list \<Rightarrow> nat list"

definition claves_de :: "ordenacion \<Rightarrow> celda list \<Rightarrow> celda list" where
  "claves_de orden ks = ordenar_claves orden (remdups (filter (\<lambda>c. \<not> es_nulo c) ks))"

definition sort_values_desc ::
  "ordenacion \<Rightarrow> ('k \<times> real \<times> 'r) list \<Rightarrow> ('k \<times> real \<times> 'r) list" where
  \<comment> \<open>\<^verbatim>\<open>.sort_values("ingresos", ascending=False)\<close>: the rows taken at the positions of
      the argsort of the column\<close>
  "sort_values_desc orden gs =
     map (\<lambda>i. gs ! i) (argsort_desc orden (map (\<lambda>g. fst (snd g)) gs))"

definition iloc0 :: "'a list \<Rightarrow> error + 'a" where
  \<comment> \<open>\<^verbatim>\<open>.iloc[0]\<close>\<close>
  "iloc0 xs = (case xs of [] \<Rightarrow> Inl IndexError | x # _ \<Rightarrow> Inr x)"

definition agrupar_dimension ::
  "ordenacion \<Rightarrow> tabla \<Rightarrow> string \<Rightarrow> error + (celda \<times> real \<times> real) list" where
  \<comment> \<open>\<^verbatim>\<open>groupby(col).agg(ingresos sum, margen sum).sort_values(...)\<close>\<close>
  "agrupar_dimension orden t col =
     entonces (serie t col) (\<lambda>ks.
     entonces (valores t ''ingresos'') (\<lambda>ingresos.
     entonces (valores t ''margen'') (\<lambda>margen.
     Inr (sort_values_desc orden
            (map (\<lambda>k. (k, suma_del_grupo ks ingresos k, suma_del_grupo ks margen k))
               (claves_de orden ks))))))"

definition agrupar_productos ::
  "ordenacion \<Rightarrow> tabla \<Rightarrow> error + (celda \<times> real \<times> real \<times> real) list" where
  \<comment> \<open>\<^verbatim>\<open>groupby("id_producto").agg(ingresos, margen, cantidad sums).sort_values(...)\<close>\<close>
  "agrupar_productos orden t =
     entonces (serie t ''id_producto'') (\<lambda>ks.
     entonces (valores t ''ingresos'') (\<lambda>ingresos.
     entonces (valores t ''margen'') (\<lambda>margen.
     entonces (valores t ''cantidad'') (\<lambda>cantidad.
     Inr (sort_values_desc orden
            (map (\<lambda>k. (k, suma_del_grupo ks ingresos k, suma_del_grupo ks margen k,
                        suma_del_grupo ks cantidad k))
               (claves_de orden ks)))))))"

definition tiene_valores :: "tabla \<Rightarrow> string \<Rightarrow> error + bool" where
  \<comment> \<open>\<^verbatim>\<open>col in tabla.columns and tabla[col].notna().any()\<close>\<close>
  "tiene_valores t col =
     (if col \<in> set (etiquetas t)
      then entonces (serie t col) (\<lambda>ks. Inr (alguno (map (\<lambda>c. \<not> es_nulo c) ks)))
      else Inr False)"

text \<open>\<^verbatim>\<open>GeneradorInsights.generar\<close>, lines 23 to 154.\<close>

definition generar ::
  "ordenacion \<Rightarrow> tabla \<Rightarrow> tabla \<Rightarrow> string \<Rightarrow> error + insight list" where
  "generar orden tabla_actual tabla_anterior filtros_descripcion =
     (if vacia tabla_actual then
        Inr [\<lparr> titulo = titulo_sin_datos, mensaje = MensajeSinDatos, tipo = ''neutral'' \<rparr>]
      else
        entonces (valores tabla_actual ''ingresos'') (\<lambda>vs.
        let ingresos_actual = sumar vs in
        entonces (if \<not> vacia tabla_anterior
                  then entonces (valores tabla_anterior ''ingresos'') (\<lambda>ws. Inr (sumar ws))
                  else Inr 0) (\<lambda>ingresos_anterior.
        let variacion_pct =
              (if ingresos_anterior \<noteq> 0
               then ((ingresos_actual - ingresos_anterior) / ingresos_anterior) * 100 else 0);
            insights =
              (if ingresos_anterior = 0 \<and> ingresos_actual > 0 then
                 [\<lparr> titulo = titulo_sin_referencia, mensaje = MensajeSinReferencia,
                    tipo = ''neutral'' \<rparr>]
               else
                 [\<lparr> titulo = titulo_rendimiento,
                    mensaje = MensajeRendimiento ingresos_actual variacion_pct filtros_descripcion,
                    tipo = (if variacion_pct > 0 then ''positivo''
                            else if variacion_pct < 0 then ''negativo'' else ''neutral'') \<rparr>])
        in
        entonces (tiene_valores tabla_actual ''region'') (\<lambda>hay_region.
        entonces (if hay_region then
                    entonces (agrupar_dimension orden tabla_actual ''region'') (\<lambda>por_region.
                    entonces (iloc0 por_region) (\<lambda>top_region.
                    let total_ing = sum_list (map (\<lambda>g. fst (snd g)) por_region);
                        aporte_pct =
                          (if total_ing > 0 then (fst (snd top_region) / total_ing) * 100 else 0)
                    in Inr (insights @
                         [\<lparr> titulo = titulo_region,
                            mensaje = MensajeRegionLider (fst top_region) aporte_pct
                                        (fst (snd top_region)),
                            tipo = ''positivo'' \<rparr>])))
                  else Inr insights) (\<lambda>insights.
        entonces (tiene_valores tabla_actual ''canal'') (\<lambda>hay_canal.
        entonces (if hay_canal then
                    entonces (agrupar_dimension orden tabla_actual ''canal'') (\<lambda>por_canal.
                    entonces (iloc0 por_canal) (\<lambda>top_canal.
                    Inr (insights @
                         [\<lparr> titulo = titulo_canal,
                            mensaje = MensajeCanalFuerte (fst top_canal) (fst (snd top_canal)),
                            tipo = ''neutral'' \<rparr>])))
                  else Inr insights) (\<lambda>insights.
        entonces (agrupar_productos orden tabla_actual) (\<lambda>por_producto.
        entonces (if por_producto \<noteq> [] then
                    entonces (iloc0 por_producto) (\<lambda>top_prod.
                    let margen_pct =
                          (if fst (snd top_prod) > 0
                           then fst (snd (snd top_prod)) / fst (snd top_prod) * 100 else 0);
                        tipo_prod = (if margen_pct < 15 then ''negativo'' else ''positivo'')
                    in Inr (insights @
                         [\<lparr> titulo = titulo_producto,
                            mensaje = MensajeProductoLider (fst top_prod) (fst (snd top_prod))
                                        margen_pct,
                            tipo = tipo_prod \<rparr>]))
                  else Inr insights) (\<lambda>insights.
        entonces (if por_producto \<noteq> [] then
                    let total_ingresos = sum_list (map (\<lambda>g. fst (snd g)) por_producto) in
                    entonces (iloc0 por_producto) (\<lambda>primero.
                    let share_top =
                          (if total_ingresos > 0 then (fst (snd primero) / total_ingresos) * 100
                           else 0)
                    in if share_top \<ge> 60 then
                         Inr (insights @
                           [\<lparr> titulo = titulo_concentracion,
                              mensaje = MensajeConcentracion share_top (fst primero),
                              tipo = ''negativo'' \<rparr>])
                       else Inr insights)
                  else Inr insights) (\<lambda>insights.
        Inr insights))))))))))"

section \<open>Vocabulary of the specification\<close>

text \<open>
  The column of a label that stands once in the table, and properties of all its cells.
\<close>

definition unica :: "tabla \<Rightarrow> string \<Rightarrow> bool" where
  "unica t col = (length (seleccionar t col) = 1)"

definition columna :: "tabla \<Rightarrow> string \<Rightarrow> celda list" where
  "columna t col = concat (seleccionar t col)"

definition es_numero :: "celda \<Rightarrow> bool" where
  "es_numero c = (case c of Numero x \<Rightarrow> True | _ \<Rightarrow> False)"

definition cumple :: "(real \<Rightarrow> bool) \<Rightarrow> celda \<Rightarrow> bool" where
  "cumple p c = (case c of Numero x \<Rightarrow> p x | _ \<Rightarrow> False)"

definition no_negativa :: "celda \<Rightarrow> bool" where
  "no_negativa c = cumple (\<lambda>x. 0 \<le> x) c"

definition con_valor :: "celda \<Rightarrow> bool" where
  "con_valor c = (\<not> es_nulo c)"

definition todas :: "(celda \<Rightarrow> bool) \<Rightarrow> string \<Rightarrow> tabla \<Rightarrow> bool" where
  "todas P col t = list_all P (columna t col)"

definition columnas_de_limpieza :: "tabla \<Rightarrow> bool" where
  \<comment> \<open>the four columns the cleaner reads are columns of the table\<close>
  "columnas_de_limpieza t =
     (unica t ''fecha'' \<and> unica t ''cantidad'' \<and> unica t ''precio'' \<and> unica t ''costo'')"

text \<open>
  The states of the table in the cleaner, one after each step of the source: the dates
  converted, the rows without date dropped, the three numeric columns converted in
  turn, and the three drops of negative values. \<open>descartar col k t\<close> is the drop the
  source makes when the count it holds is k.
\<close>

definition con_fechas :: "conversor \<Rightarrow> tabla \<Rightarrow> tabla" where
  "con_fechas cv t = poner_columna ''fecha'' (to_datetime_coerce cv (columna t ''fecha'')) t"

definition tras_fechas :: "conversor \<Rightarrow> tabla \<Rightarrow> tabla" where
  "tras_fechas cv t =
     filtrar_filas (map (\<lambda>c. \<not> es_nulo c) (columna (con_fechas cv t) ''fecha'')) (con_fechas cv t)"

definition columna_convertida :: "conversor \<Rightarrow> celda list \<Rightarrow> celda list" where
  "columna_convertida cv xs =
     (let ys = to_numeric_coerce cv xs
      in if contar (map es_nulo ys) > 0 then fillna 0 ys else ys)"

definition convertir :: "conversor \<Rightarrow> string \<Rightarrow> tabla \<Rightarrow> tabla" where
  "convertir cv col t = poner_columna col (columna_convertida cv (columna t col)) t"

definition tras_cantidad_num :: "conversor \<Rightarrow> tabla \<Rightarrow> tabla" where
  "tras_cantidad_num cv t = convertir cv ''cantidad'' (tras_fechas cv t)"

definition tras_precio_num :: "conversor \<Rightarrow> tabla \<Rightarrow> tabla" where
  "tras_precio_num cv t = convertir cv ''precio'' (tras_cantidad_num cv t)"

definition tras_numericas :: "conversor \<Rightarrow> tabla \<Rightarrow> tabla" where
  "tras_numericas cv t = convertir cv ''costo'' (tras_precio_num cv t)"

definition negativas :: "string \<Rightarrow> tabla \<Rightarrow> nat" where
  \<comment> \<open>the number of rows of the table whose value in the column is negative\<close>
  "negativas col t = contar (map (cumple (\<lambda>x. x < 0)) (columna t col))"

definition descartar :: "string \<Rightarrow> nat \<Rightarrow> tabla \<Rightarrow> tabla" where
  "descartar col k t =
     (if k > 0 then filtrar_filas (map (cumple (\<lambda>x. x \<ge> 0)) (columna t col)) t else t)"

definition tras_cantidad :: "conversor \<Rightarrow> tabla \<Rightarrow> tabla" where
  "tras_cantidad cv t =
     descartar ''cantidad'' (negativas ''cantidad'' (tras_numericas cv t)) (tras_numericas cv t)"

definition tras_precio :: "conversor \<Rightarrow> tabla \<Rightarrow> tabla" where
  "tras_precio cv t =
     descartar ''precio'' (negativas ''precio'' (tras_cantidad cv t)) (tras_cantidad cv t)"

definition tabla_limpia :: "conversor \<Rightarrow> tabla \<Rightarrow> tabla" where
  "tabla_limpia cv t =
     descartar ''costo'' (negativas ''costo'' (tras_cantidad cv t)) (tras_precio cv t)"

definition aviso_fechas :: "conversor \<Rightarrow> tabla \<Rightarrow> mensaje list" where
  "aviso_fechas cv t =
     (let k = contar (map es_nulo (columna (con_fechas cv t) ''fecha''))
      in if k > 0 then [FilasFechaInvalida k] else [])"

definition aviso_nulos :: "conversor \<Rightarrow> string \<Rightarrow> tabla \<Rightarrow> mensaje list" where
  "aviso_nulos cv col t =
     (let k = contar (map es_nulo (to_numeric_coerce cv (columna t col)))
      in if k > 0 then [NoNumericosReemplazados col k] else [])"

definition aviso_negativas :: "string \<Rightarrow> nat \<Rightarrow> mensaje list" where
  "aviso_negativas col k = (if k > 0 then [FilasNegativasEliminadas col k] else [])"

definition avisos_limpieza :: "conversor \<Rightarrow> tabla \<Rightarrow> mensaje list" where
  \<comment> \<open>the warnings of the source, in its order; the count of negative costs is taken on
      the table as it stands after the drop by quantity\<close>
  "avisos_limpieza cv t =
     aviso_fechas cv t
     @ aviso_nulos cv ''cantidad'' (tras_fechas cv t)
     @ aviso_nulos cv ''precio'' (tras_cantidad_num cv t)
     @ aviso_nulos cv ''costo'' (tras_precio_num cv t)
     @ aviso_negativas ''cantidad'' (negativas ''cantidad'' (tras_numericas cv t))
     @ aviso_negativas ''precio'' (negativas ''precio'' (tras_cantidad cv t))
     @ aviso_negativas ''costo'' (negativas ''costo'' (tras_cantidad cv t))"

definition avisos_secuenciales :: "conversor \<Rightarrow> tabla \<Rightarrow> mensaje list" where
  \<comment> \<open>the warnings as the specification words them: each count of negative values taken
      on the table after all prior drops\<close>
  "avisos_secuenciales cv t =
     aviso_fechas cv t
     @ aviso_nulos cv ''cantidad'' (tras_fechas cv t)
     @ aviso_nulos cv ''precio'' (tras_cantidad_num cv t)
     @ aviso_nulos cv ''costo'' (tras_precio_num cv t)
     @ aviso_negativas ''cantidad'' (negativas ''cantidad'' (tras_numericas cv t))
     @ aviso_negativas ''precio'' (negativas ''precio'' (tras_cantidad cv t))
     @ aviso_negativas ''costo'' (negativas ''costo'' (tras_precio cv t))"

text \<open>
  Two judgements on programs. \<open>marco n P m Q\<close>: from a store of at least n objects whose
  length satisfies P, the program m leaves the first n objects as they were and never
  shortens the store, whether it returns or raises; a value it returns satisfies Q with
  the final length. \<open>reciente n r l\<close> says that r is the last object of a store of
  length l and is not among the first n. \<open>logra P m Q\<close>: from a store that satisfies P,
  m returns without raising, with a value and a store that satisfy Q. \<open>est r t s\<close>: in
  the store s the reference r holds the table t.
\<close>

definition reciente :: "nat \<Rightarrow> nat \<Rightarrow> nat \<Rightarrow> bool" where
  "reciente n r l = (l = r + 1 \<and> n \<le> r)"

definition marco :: "nat \<Rightarrow> (nat \<Rightarrow> bool) \<Rightarrow> 'a programa \<Rightarrow> ('a \<Rightarrow> nat \<Rightarrow> bool) \<Rightarrow> bool" where
  "marco n P m Q =
     (\<forall>s. n \<le> length s \<longrightarrow> P (length s) \<longrightarrow>
        length s \<le> length (snd (m s)) \<and> take n (snd (m s)) = take n s \<and>
        (\<forall>x. fst (m s) = Inr x \<longrightarrow> Q x (length (snd (m s)))))"

definition est :: "nat \<Rightarrow> tabla \<Rightarrow> almacen \<Rightarrow> bool" where
  "est r t s = (r < length s \<and> s ! r = t)"

definition logra :: "(almacen \<Rightarrow> bool) \<Rightarrow> 'a programa \<Rightarrow> ('a \<Rightarrow> almacen \<Rightarrow> bool) \<Rightarrow> bool" where
  "logra P m Q = (\<forall>s. P s \<longrightarrow> (\<exists>x. fst (m s) = Inr x \<and> Q x (snd (m s))))"

definition contenido :: "nat programa \<Rightarrow> almacen \<Rightarrow> error + tabla" where
  \<comment> \<open>what a caller sees of a program that returns a table: the table, or the exception\<close>
  "contenido m s = (case m s of (Inl e, s') \<Rightarrow> Inl e | (Inr r, s') \<Rightarrow> Inr (s' ! r))"

text \<open>
  Concrete inputs: a converter under which no \<^verbatim>\<open>str\<close> converts, the default
  configuration, and tables of one row in the standard schema.
\<close>

definition conversor_estricto :: conversor where
  "conversor_estricto =
     \<lparr> fecha_de = (\<lambda>formato columna c. NoConvertible), numero_de = (\<lambda>c. NoConvertible) \<rparr>"

definition configuracion_por_defecto :: configuracion_aplicacion where
  "configuracion_por_defecto = \<lparr> formato_fecha = None, max_filas_csv = 500000 \<rparr>"

definition fila_ejemplo :: "celda \<Rightarrow> celda \<Rightarrow> celda \<Rightarrow> celda \<Rightarrow> tabla" where
  "fila_ejemplo f q p c =
     \<lparr> indice = 1,
       columnas =
         [(''fecha'', [f]), (''id_orden'', [Texto ''O1'']), (''id_cliente'', [Texto ''C1'']),
          (''id_producto'', [Texto ''P1'']), (''cantidad'', [q]), (''precio'', [p]),
          (''costo'', [c]), (''region'', [Texto ''Norte'']), (''canal'', [Texto ''Web''])] \<rparr>"

definition tabla_ejemplo :: tabla where
  "tabla_ejemplo = fila_ejemplo (Marca 0) (Numero 2) (Numero 10) (Numero 4)"

definition tabla_negativos :: tabla where
  "tabla_negativos = fila_ejemplo (Marca 0) (Numero 1) (Numero (- 1)) (Numero (- 1))"

definition filtro_a :: filtro_seleccion where
  "filtro_a =
     \<lparr> fecha_inicio = 0, fecha_fin = 10, region = Some ''Todas'', canal = Some ''Web'',
       id_producto = None \<rparr>"

definition filtro_b :: filtro_seleccion where
  "filtro_b =
     \<lparr> fecha_inicio = 5, fecha_fin = 10, region = Some ''Norte'', canal = None,
       id_producto = None \<rparr>"

section \<open>Example tables of the validator and the normaliser\<close>

text \<open>
  Tables of one row with a \<^verbatim>\<open>str\<close> in a numeric column, as \<^verbatim>\<open>read_csv\<close> gives for a
  column that holds text, and a table of one column and no row for the column names.
\<close>

definition tabla_texto_en_cantidad :: tabla where
  "tabla_texto_en_cantidad = fila_ejemplo (Marca 0) (Texto ''abc'') (Numero 10) (Numero 3)"

definition tabla_texto_en_dos :: tabla where
  "tabla_texto_en_dos = fila_ejemplo (Marca 0) (Texto ''abc'') (Texto ''xyz'') (Numero 3)"

definition tabla_una_columna :: "string \<Rightarrow> tabla" where
  "tabla_una_columna nombre = \<lparr> indice = 0, columnas = [(nombre, [])] \<rparr>"

definition region_con_o_acentuada :: string where
  "region_con_o_acentuada = '' Regi'' @ [CHR 0xF3] @ ''n ''"

definition region_con_e_acentuada :: string where
  "region_con_e_acentuada = ''r'' @ [CHR 0xE9] @ ''gion''"

section \<open>Vocabulary and examples of the forecaster and the insights\<close>



definition numeros :: "tabla \<Rightarrow> string \<Rightarrow> real option list" where
  "numeros t col = map (\<lambda>c. case c of Numero x \<Rightarrow> Some x | _ \<Rightarrow> None) (columna t col)"




definition ventas :: "celda list \<Rightarrow> celda list \<Rightarrow> celda list \<Rightarrow> celda list \<Rightarrow> tabla" where
  "ventas fechas productos ingresos margen =
     \<lparr> indice = length fechas,
       columnas = [(''fecha'', fechas), (''id_producto'', productos),
                   (''region'', map (\<lambda>_. Texto ''Norte'') fechas),
                   (''canal'', map (\<lambda>_. Texto ''Web'') fechas),
                   (''cantidad'', map (\<lambda>_. Numero 1) fechas),
                   (''ingresos'', ingresos), (''margen'', margen)] \<rparr>"

definition tabla_70 :: tabla where
  "tabla_70 = ventas [Marca 0, Marca un_dia, Marca (3 * un_dia), Marca 0]
                [Texto ''P1'', Texto ''P2'', Texto ''P1'', Nulo]
                [Numero 30, Numero 30, Numero 40, Numero 5]
                [Numero 10, Numero 3, Numero 10, Numero 1]"

definition tabla_sin_producto :: tabla where
  "tabla_sin_producto = ventas [Marca 0] [Nulo] [Numero 100] [Numero 50]"

definition tabla_sin_filas :: tabla where
  "tabla_sin_filas = ventas [] [] [] []"








text \<open>
  An ordering of pandas is valid when the sort of the keys returns the distinct keys it
  is given, each once, and the argsort of a column returns each position of the column
  once, in descending order of the values. The groups of the insights, as the code
  computes them once every read succeeds: one group for each product id (or region, or
  channel) with the sums of its rows, in descending order of revenue. The leading
  product is the first group; its margin ratio and its share are the two percentages
  the code compares with 15 and 60. A sales table has one column each of product ids,
  revenue, margin and quantity, the last three of numbers or missing values, and at
  most one column of regions and of channels.
\<close>

definition orden_valida :: "ordenacion \<Rightarrow> bool" where
  "orden_valida orden =
     ((\<forall>ks. distinct ks \<longrightarrow>
          distinct (ordenar_claves orden ks) \<and> set (ordenar_claves orden ks) = set ks)
      \<and> (\<forall>vs. distinct (argsort_desc orden vs)
            \<and> set (argsort_desc orden vs) = {..<length vs}
            \<and> sorted (map (\<lambda>i. - (vs ! i)) (argsort_desc orden vs))))"

definition grupos_producto ::
  "ordenacion \<Rightarrow> tabla \<Rightarrow> (celda \<times> real \<times> real \<times> real) list" where
  "grupos_producto orden t =
     (let ks = columna t ''id_producto''
      in sort_values_desc orden
           (map (\<lambda>k. (k, suma_del_grupo ks (numeros t ''ingresos'') k,
                       suma_del_grupo ks (numeros t ''margen'') k,
                       suma_del_grupo ks (numeros t ''cantidad'') k))
              (claves_de orden ks)))"

definition grupos_dimension ::
  "ordenacion \<Rightarrow> tabla \<Rightarrow> string \<Rightarrow> (celda \<times> real \<times> real) list" where
  "grupos_dimension orden t col =
     (let ks = columna t col
      in sort_values_desc orden
           (map (\<lambda>k. (k, suma_del_grupo ks (numeros t ''ingresos'') k,
                       suma_del_grupo ks (numeros t ''margen'') k))
              (claves_de orden ks)))"

definition columna_opcional :: "tabla \<Rightarrow> string \<Rightarrow> bool" where
  "columna_opcional t col = (col \<in> set (etiquetas t) \<longrightarrow> unica t col)"

definition tabla_de_ventas :: "tabla \<Rightarrow> bool" where
  "tabla_de_ventas t =
     (unica t ''id_producto''
      \<and> unica t ''ingresos'' \<and> todas (\<lambda>c. c = Nulo \<or> es_numero c) ''ingresos'' t
      \<and> unica t ''margen'' \<and> todas (\<lambda>c. c = Nulo \<or> es_numero c) ''margen'' t
      \<and> unica t ''cantidad'' \<and> todas (\<lambda>c. c = Nulo \<or> es_numero c) ''cantidad'' t
      \<and> columna_opcional t ''region'' \<and> columna_opcional t ''canal'')"

definition tabla_de_referencia :: "tabla \<Rightarrow> bool" where
  "tabla_de_referencia a =
     (vacia a \<or> (unica a ''ingresos'' \<and> todas (\<lambda>c. c = Nulo \<or> es_numero c) ''ingresos'' a))"

definition producto_lider :: "ordenacion \<Rightarrow> tabla \<Rightarrow> celda \<times> real \<times> real \<times> real" where
  "producto_lider orden t = hd (grupos_producto orden t)"

definition margen_pct_lider :: "ordenacion \<Rightarrow> tabla \<Rightarrow> real" where
  "margen_pct_lider orden t =
     (if fst (snd (producto_lider orden t)) > 0
      then fst (snd (snd (producto_lider orden t))) / fst (snd (producto_lider orden t)) * 100
      else 0)"

definition ingresos_con_producto :: "ordenacion \<Rightarrow> tabla \<Rightarrow> real" where
  "ingresos_con_producto orden t = sum_list (map (\<lambda>g. fst (snd g)) (grupos_producto orden t))"

definition participacion_lider :: "ordenacion \<Rightarrow> tabla \<Rightarrow> real" where
  "participacion_lider orden t =
     (if ingresos_con_producto orden t > 0
      then (fst (snd (producto_lider orden t)) / ingresos_con_producto orden t) * 100 else 0)"

definition de_titulo :: "string \<Rightarrow> insight list \<Rightarrow> insight list" where
  "de_titulo s ins = filter (\<lambda>i. titulo i = s) ins"

definition insights_de_producto :: "ordenacion \<Rightarrow> tabla \<Rightarrow> insight list" where
  "insights_de_producto orden t =
     (if grupos_producto orden t = [] then []
      else [\<lparr> titulo = titulo_producto,
               mensaje = MensajeProductoLider (fst (producto_lider orden t))
                           (fst (snd (producto_lider orden t))) (margen_pct_lider orden t),
               tipo = (if margen_pct_lider orden t < 15 then ''negativo'' else ''positivo'') \<rparr>]
           @ (if participacion_lider orden t \<ge> 60
              then [\<lparr> titulo = titulo_concentracion,
                       mensaje = MensajeConcentracion (participacion_lider orden t)
                                   (fst (producto_lider orden t)),
                       tipo = ''negativo'' \<rparr>]
              else []))"

definition ingresos_de_filas_con_producto :: "tabla \<Rightarrow> real" where
  "ingresos_de_filas_con_producto t =
     sumar (map snd (filter (\<lambda>(k, v). con_valor k)
                       (zip (columna t ''id_producto'') (numeros t ''ingresos''))))"

text \<open>
  An ordering for the examples: keys of one kind in their order (text by code points),
  keys of different kinds in a fixed order, and the stable argsort, which keeps rows of
  equal value in the order of their keys, as pandas does on a short column.
\<close>

fun texto_menor_igual :: "string \<Rightarrow> string \<Rightarrow> bool" where
  "texto_menor_igual [] ys = True"
| "texto_menor_igual (x # xs) [] = False"
| "texto_menor_igual (x # xs) (y # ys) =
     ((of_char x :: nat) < of_char y \<or> (x = y \<and> texto_menor_igual xs ys))"

fun clave_menor_igual :: "celda \<Rightarrow> celda \<Rightarrow> bool" where
  "clave_menor_igual (Numero x) (Numero y) = (x \<le> y)"
| "clave_menor_igual (Marca x) (Marca y) = (x \<le> y)"
| "clave_menor_igual (Texto x) (Texto y) = texto_menor_igual x y"
| "clave_menor_igual Nulo b = True"
| "clave_menor_igual (Numero x) b = True"
| "clave_menor_igual (Marca x) (Texto y) = True"
| "clave_menor_igual a b = False"

fun insertar_clave :: "celda \<Rightarrow> celda list \<Rightarrow> celda list" where
  "insertar_clave k [] = [k]"
| "insertar_clave k (x # xs) =
     (if clave_menor_igual k x then k # x # xs else x # insertar_clave k xs)"

definition orden_estable :: ordenacion where
  "orden_estable =
     \<lparr> ordenar_claves = (\<lambda>ks. foldr insertar_clave ks []),
       argsort_desc = (\<lambda>vs. map snd (sort_key (\<lambda>p. - fst p) (zip vs [0..<length vs]))) \<rparr>"

definition tabla_mixta :: tabla where
  "tabla_mixta = ventas [Marca 0, Marca 0, Marca 0]
                   [Texto ''P1'', Texto ''P2'', Nulo]
                   [Numero 60, Numero 30, Numero 20]
                   [Numero 6, Numero 3, Numero 2]"

definition tabla_empate :: tabla where
  "tabla_empate = ventas [Marca 0, Marca 0]
                    [Texto ''P2'', Texto ''P1'']
                    [Numero 50, Numero 50]
                    [Numero 10, Numero 5]"

section \<open>Tables: selection, assignment and row filters\<close>

lemma serie_unica: "unica t col \<Longrightarrow> serie t col = Inr (columna t col)"
  by (cases "seleccionar t col"; cases "tl (seleccionar t col)")
     (auto simp: unica_def columna_def serie_def)

lemma serie_Inr_iff: "serie t col = Inr xs \<longleftrightarrow> unica t col \<and> xs = columna t col"
  by (cases "seleccionar t col"; cases "tl (seleccionar t col)")
     (auto simp: unica_def columna_def serie_def)

lemma filtro_reemplazo_otro:
  "col \<noteq> col' \<Longrightarrow>
   map snd (filter (\<lambda>(c, xs). c = col') (map (\<lambda>(c, zs). if c = col then (c, ys) else (c, zs)) cs))
     = map snd (filter (\<lambda>(c, xs). c = col') cs)"
  by (induction cs) (auto split: if_splits)

lemma filtro_reemplazo_mismo:
  "map snd (filter (\<lambda>(c, xs). c = col) (map (\<lambda>(c, zs). if c = col then (c, ys) else (c, zs)) cs))
     = map (\<lambda>_. ys) (filter (\<lambda>(c, xs). c = col) cs)"
  by (induction cs) (auto split: if_splits)

lemma filtro_ausente:
  "(col \<in> fst ` set cs) = (filter (\<lambda>(c, xs). c = col) cs \<noteq> [])"
  by (induction cs) (auto split: if_splits)

lemma seleccionar_poner_otro:
  "col \<noteq> col' \<Longrightarrow> seleccionar (poner_columna col ys t) col' = seleccionar t col'"
  by (simp add: seleccionar_def poner_columna_def poner_def filtro_reemplazo_otro)

lemma seleccionar_poner_mismo:
  "seleccionar (poner_columna col ys t) col =
     (if seleccionar t col = [] then [ys] else map (\<lambda>_. ys) (seleccionar t col))"
  by (simp add: seleccionar_def poner_columna_def poner_def filtro_reemplazo_mismo filtro_ausente)

lemma seleccionar_filtrar:
  "seleccionar (filtrar_filas m t) col = map (por_mascara m) (seleccionar t col)"
proof -
  have "map snd (filter (\<lambda>(c, xs). c = col) (map (\<lambda>(c, xs). (c, por_mascara m xs)) cs))
      = map (por_mascara m) (map snd (filter (\<lambda>(c, xs). c = col) cs))" for cs :: "(string \<times> celda list) list"
    by (induction cs) auto
  then show ?thesis by (simp add: seleccionar_def filtrar_filas_def)
qed

lemma unica_poner [simp]: "unica t c \<Longrightarrow> unica (poner_columna col ys t) c"
  by (cases "col = c") (auto simp: unica_def seleccionar_poner_otro seleccionar_poner_mismo)

lemma unica_filtrar [simp]: "unica (filtrar_filas m t) c = unica t c"
  by (simp add: unica_def seleccionar_filtrar)

lemma columna_poner_mismo [simp]: "unica t col \<Longrightarrow> columna (poner_columna col ys t) col = ys"
  by (cases "seleccionar t col"; cases "tl (seleccionar t col)")
     (auto simp: unica_def columna_def seleccionar_poner_mismo)

lemma columna_poner_otro [simp]: "col \<noteq> c \<Longrightarrow> columna (poner_columna col ys t) c = columna t c"
  by (simp add: columna_def seleccionar_poner_otro)

lemma columna_filtrar [simp]: "unica t c \<Longrightarrow> columna (filtrar_filas m t) c = por_mascara m (columna t c)"
  by (cases "seleccionar t c"; cases "tl (seleccionar t c)")
     (auto simp: unica_def columna_def seleccionar_filtrar)

lemma indice_poner [simp]: "indice (poner_columna col ys t) = indice t"
  by (simp add: poner_columna_def)

lemma indice_filtrar [simp]: "indice (filtrar_filas m t) = contar m"
  by (simp add: filtrar_filas_def contar_def)

lemma reemplazo_dos:
  "map (\<lambda>(c, ws). if c = col then (c, zs) else (c, ws))
     (map (\<lambda>(c, ws). if c = col then (c, ys) else (c, ws)) cs)
   = map (\<lambda>(c, ws). if c = col then (c, zs) else (c, ws)) cs"
  by (induction cs) auto

lemma reemplazo_presente:
  "col \<in> set (map fst cs) \<Longrightarrow>
   col \<in> set (map fst (map (\<lambda>(c, ws). if c = col then (c, ys) else (c, ws)) cs))"
  by (induction cs) auto

lemma reemplazo_ausente:
  "col \<notin> set (map fst cs) \<Longrightarrow> map (\<lambda>(c, ws). if c = col then (c, ys) else (c, ws)) cs = cs"
  by (induction cs) auto

lemma poner_dos: "poner col zs (poner col ys cs) = poner col zs cs"
proof (cases "col \<in> set (map fst cs)")
  case True
  note p = reemplazo_presente[OF True, of ys]
  show ?thesis
    by (simp only: poner_def True p if_True reemplazo_dos)
next
  case False
  have "col \<in> set (map fst (cs @ [(col, ys)]))" by simp
  then show ?thesis
    by (simp only: poner_def False if_False if_True) (simp add: reemplazo_ausente[OF False])
qed

lemma poner_columna_dos [simp]:
  "poner_columna col zs (poner_columna col ys t) = poner_columna col zs t"
  by (simp add: poner_columna_def poner_dos)

lemma traverse_comparar:
  "list_all es_numero xs \<Longrightarrow> traverse (comparar_numero p) xs = Inr (map (cumple p) xs)"
  by (induction xs) (auto simp: es_numero_def cumple_def split: celda.splits)

lemma list_all_por_mascara: "list_all P xs \<Longrightarrow> list_all P (por_mascara m xs)"
  by (auto simp: por_mascara_def list_all_iff dest!: set_zip_rightD)

lemma todas_filtrar: "unica t c \<Longrightarrow> todas P c t \<Longrightarrow> todas P c (filtrar_filas m t)"
  by (simp add: todas_def list_all_por_mascara)

lemma convertida_es_numero: "list_all es_numero (columna_convertida cv xs)"
proof -
  have a: "list_all (\<lambda>c. es_numero c \<or> c = Nulo) (to_numeric_coerce cv xs)"
    by (auto simp: to_numeric_coerce_def list_all_iff es_numero_def split: conversion.splits)
  have b: "list_all (\<lambda>c. es_numero c \<or> c = Nulo) ys \<Longrightarrow> list_all es_numero (fillna 0 ys)" for ys
    by (auto simp: fillna_def list_all_iff es_numero_def es_nulo_def)
  have d: "contar (map es_nulo ys) = 0 \<Longrightarrow> Nulo \<notin> set ys" for ys
    by (auto simp: contar_def filter_map o_def filter_empty_conv es_nulo_def)
  have c: "list_all (\<lambda>c. es_numero c \<or> c = Nulo) ys \<Longrightarrow> contar (map es_nulo ys) = 0
             \<Longrightarrow> list_all es_numero ys" for ys
    using d[of ys] by (auto simp: list_all_iff)
  show ?thesis
    using a b[OF a] c[OF a] by (auto simp: columna_convertida_def Let_def)
qed

lemma unica_convertir [simp]: "unica t c \<Longrightarrow> unica (convertir cv col t) c"
  by (simp add: convertir_def)

lemma unica_descartar [simp]: "unica (descartar col k t) c = unica t c"
  by (simp add: descartar_def)

lemma todas_convertir_mismo: "unica t col \<Longrightarrow> todas es_numero col (convertir cv col t)"
  by (simp add: todas_def convertir_def convertida_es_numero)

lemma todas_convertir_otro: "col \<noteq> c \<Longrightarrow> todas P c (convertir cv col t) = todas P c t"
  by (simp add: todas_def convertir_def)

lemma todas_descartar: "unica t c \<Longrightarrow> todas P c t \<Longrightarrow> todas P c (descartar col k t)"
  by (simp add: descartar_def todas_filtrar)

lemma por_mascara_propia: "list_all P (por_mascara (map P xs) xs)"
  by (induction xs) (auto simp: por_mascara_def)

lemma descartar_no_negativas:
  assumes "unica t c" and "k = 0 \<Longrightarrow> todas no_negativa c t"
  shows "todas no_negativa c (descartar c k t)"
  using assms por_mascara_propia[of "cumple (\<lambda>x. 0 \<le> x)" "columna t c"]
  by (auto simp: descartar_def todas_def no_negativa_def[abs_def])

lemma negativas_cero:
  assumes "todas es_numero c t" and "negativas c t = 0"
  shows "todas no_negativa c t"
proof -
  have "list_all es_numero xs \<Longrightarrow> contar (map (cumple (\<lambda>x. x < 0)) xs) = 0
          \<Longrightarrow> list_all no_negativa xs" for xs
    by (auto simp: contar_def filter_map o_def filter_empty_conv list_all_iff
          es_numero_def cumple_def no_negativa_def split: celda.splits)
  with assms show ?thesis by (simp add: todas_def negativas_def)
qed

section \<open>The frame of a program\<close>

lemma marcoD:
  assumes "marco n P m Q" and "n \<le> length s" and "P (length s)"
  shows "length s \<le> length (snd (m s))" and "take n (snd (m s)) = take n s"
    and "fst (m s) = Inr x \<Longrightarrow> Q x (length (snd (m s)))"
  using assms unfolding marco_def by simp_all

lemma marco_devolver: "(\<And>l. P l \<Longrightarrow> Q x l) \<Longrightarrow> marco n P (devolver x) Q"
  by (simp add: marco_def devolver_def)

lemma marco_ligar:
  assumes m: "marco n P m R" and f: "\<And>x. marco n (R x) (f x) Q"
  shows "marco n P (ligar m f) Q"
  unfolding marco_def
proof (intro allI impI)
  fix s :: almacen
  assume n: "n \<le> length s" and p: "P (length s)"
  note 1 = marcoD[OF m n p]
  show "length s \<le> length (snd (ligar m f s)) \<and>
        take n (snd (ligar m f s)) = take n s \<and>
        (\<forall>x. fst (ligar m f s) = Inr x \<longrightarrow> Q x (length (snd (ligar m f s))))"
  proof (cases "fst (m s)")
    case (Inl e)
    then have "ligar m f s = (Inl e, snd (m s))"
      by (cases "m s") (simp add: ligar_def)
    with 1(1,2) show ?thesis by simp
  next
    case (Inr x)
    then have run: "ligar m f s = f x (snd (m s))"
      by (cases "m s") (simp add: ligar_def)
    have n1: "n \<le> length (snd (m s))" using n 1(1) by simp
    note 2 = marcoD[OF f[of x] n1 1(3)[OF Inr]]
    from 1(1,2) 2 show ?thesis unfolding run by simp
  qed
qed

lemma marco_leer: "marco n P (df_leer r) (\<lambda>t. P)"
  by (simp add: marco_def df_leer_def)

lemma marco_elevar: "marco n P (elevar e) (\<lambda>x. P)"
  by (simp add: marco_def elevar_def split: sum.splits)

lemma marco_nueva: "marco n P (df_nueva t) (reciente n)"
  by (simp add: marco_def df_nueva_def reciente_def)

lemma marco_escribir: "marco n (reciente n r) (df_escribir r t) (\<lambda>u. reciente n r)"
  by (simp add: marco_def df_escribir_def reciente_def)

lemma marco_si:
  "(c \<Longrightarrow> marco n P a Q) \<Longrightarrow> (\<not> c \<Longrightarrow> marco n P b Q) \<Longrightarrow> marco n P (if c then a else b) Q"
  by simp

lemma marco_post: "marco n P m Q' \<Longrightarrow> (\<And>x l. Q' x l \<Longrightarrow> Q x l) \<Longrightarrow> marco n P m Q"
  by (simp add: marco_def)

lemma marco_copy: "marco n P (df_copy r) (reciente n)"
  unfolding df_copy_def by (rule marco_ligar[OF marco_leer]) (rule marco_post[OF marco_nueva], simp)

lemma marco_serie: "marco n P (df_serie r col) (\<lambda>x. P)"
  unfolding df_serie_def by (rule marco_ligar[OF marco_leer]) (rule marco_elevar)

lemma marco_len: "marco n P (df_len r) (\<lambda>x. P)"
  unfolding df_len_def by (rule marco_ligar[OF marco_leer]) (rule marco_devolver)

lemma marco_asignar: "marco n (reciente n r) (df_asignar r col xs) (\<lambda>u. reciente n r)"
  unfolding df_asignar_def by (rule marco_ligar[OF marco_leer]) (rule marco_escribir)

lemma marco_indexar: "marco n P (df_indexar r m) (reciente n)"
  unfolding df_indexar_def by (rule marco_ligar[OF marco_leer]) (rule marco_nueva)

lemma marco_dropna: "marco n P (df_dropna r col) (reciente n)"
  unfolding df_dropna_def by (rule marco_ligar[OF marco_serie]) (rule marco_indexar)

lemma marco_comparar: "marco n P (df_comparar r col p) (\<lambda>x. P)"
  unfolding df_comparar_def by (rule marco_ligar[OF marco_serie]) (rule marco_elevar)

lemmas marco_pasos =
  marco_ligar[OF marco_copy] marco_ligar[OF marco_serie] marco_ligar[OF marco_len]
  marco_ligar[OF marco_asignar] marco_ligar[OF marco_indexar] marco_ligar[OF marco_dropna]
  marco_ligar[OF marco_comparar] marco_ligar[OF marco_elevar] marco_ligar[OF marco_leer]
  marco_ligar[OF marco_nueva]

lemma marco_normalizar: "marco n P (normalizar esquema r) (reciente n)"
  unfolding normalizar_def Let_def
  by (intro marco_pasos marco_devolver) simp

lemma marco_transformar: "marco n P (transformar r) (reciente n)"
  unfolding transformar_def
  by (intro marco_pasos marco_devolver) simp

lemma marco_entre_fechas: "marco n P (df_entre_fechas r a b) (\<lambda>x. P)"
  unfolding df_entre_fechas_def
  by (intro marco_pasos marco_devolver) simp

lemma marco_filtrar_por:
  "marco n (reciente n r) (filtrar_por r col v todos) (reciente n)"
  unfolding filtrar_por_def
  by (cases v) (auto intro!: marco_pasos marco_devolver marco_indexar)

lemma marco_aplicar: "marco n P (aplicar r f) (reciente n)"
  unfolding aplicar_def
  by (intro marco_pasos marco_ligar[OF marco_entre_fechas] marco_ligar[OF marco_filtrar_por] marco_devolver) simp

lemma marco_convertir_numerica:
  "marco n (reciente n r) (convertir_numerica cv r col av) (\<lambda>x. reciente n r)"
  unfolding convertir_numerica_def Let_def
  by (intro marco_pasos marco_devolver marco_si) simp_all

lemma marco_para_cada:
  "(\<And>x v. marco n P (cuerpo x v) (\<lambda>v. P)) \<Longrightarrow> marco n P (para_cada xs cuerpo v) (\<lambda>v. P)"
  by (induction xs arbitrary: v) (auto intro!: marco_devolver marco_ligar)

lemma marco_eliminar_negativos:
  "marco n (reciente n r) (eliminar_negativos r col k av) (\<lambda>(r', av'). reciente n r')"
  unfolding eliminar_negativos_def
  by (intro marco_pasos marco_devolver marco_si) simp_all

lemma marco_limpiar: "marco n P (limpiar cv r) (\<lambda>(r', res). reciente n r')"
  unfolding limpiar_def Let_def
  apply (intro marco_pasos marco_ligar[OF marco_para_cada] marco_convertir_numerica)
  apply (rule marco_ligar[OF marco_eliminar_negativos])
  apply (simp only: split_paired_all prod.case)
  apply (intro marco_pasos)
  apply (rule marco_ligar[OF marco_eliminar_negativos])
  apply (simp only: split_paired_all prod.case)
  apply (rule marco_ligar[OF marco_eliminar_negativos])
  apply (simp only: split_paired_all prod.case)
  apply (intro marco_pasos marco_devolver)
  apply simp
  done


lemma marco_resultado:
  assumes "marco (length s) (\<lambda>l. True) m (reciente (length s))"
  shows "take (length s) (snd (m s)) = s \<and>
         (\<forall>r'. fst (m s) = Inr r' \<longrightarrow> length s \<le> r' \<and> r' < length (snd (m s)))"
  using marcoD[OF assms, of s] by (auto simp: reciente_def)

lemma marco_resultado_par:
  assumes "marco (length s) (\<lambda>l. True) m (\<lambda>(r', x). reciente (length s) r')"
  shows "take (length s) (snd (m s)) = s \<and>
         (\<forall>r' x. fst (m s) = Inr (r', x) \<longrightarrow> length s \<le> r' \<and> r' < length (snd (m s)))"
  using marcoD[OF assms, of s] by (auto simp: reciente_def)

section \<open>Programs that return\<close>

lemma logra_ligar:
  assumes m: "logra P m R" and f: "\<And>x. logra (R x) (f x) Q"
  shows "logra P (ligar m f) Q"
  unfolding logra_def
proof (intro allI impI)
  fix s :: almacen
  assume "P s"
  with m obtain x where x: "fst (m s) = Inr x" "R x (snd (m s))"
    unfolding logra_def by blast
  then have run: "ligar m f s = f x (snd (m s))"
    by (cases "m s") (simp add: ligar_def)
  from f[of x] x(2) show "\<exists>y. fst (ligar m f s) = Inr y \<and> Q y (snd (ligar m f s))"
    unfolding logra_def run by blast
qed

lemma logra_devolver: "(\<And>s. P s \<Longrightarrow> Q x s) \<Longrightarrow> logra P (devolver x) Q"
  by (simp add: logra_def devolver_def)

lemma logra_valor: "logra P m (\<lambda>x s. x = v \<and> R s) \<Longrightarrow> logra R (f v) Q \<Longrightarrow> logra P (ligar m f) Q"
  by (rule logra_ligar[where R = "\<lambda>x s. x = v \<and> R s"]) (auto simp: logra_def)

lemma ligar_asociativa: "ligar (ligar m f) g = ligar m (\<lambda>x. ligar (f x) g)"
  by (rule ext) (simp add: ligar_def split: prod.splits sum.splits)

lemma ligar_devolver: "ligar m devolver = m"
  by (rule ext) (simp add: ligar_def devolver_def split: prod.splits sum.splits)

lemma devolver_ligar: "ligar (devolver x) f = f x"
  by (rule ext) (simp add: ligar_def devolver_def)

lemma logra_pre: "logra (\<lambda>s. a = b \<and> P s) m Q \<Longrightarrow> logra (\<lambda>s. P s \<and> a = b) m Q"
  by (simp add: logra_def conj_commute)

lemma logra_copy: "logra (est r t) (df_copy r) (\<lambda>r'. est r' t)"
  by (simp add: logra_def df_copy_def ligar_def df_leer_def df_nueva_def est_def)

lemma logra_len: "logra (est r t) (df_len r) (\<lambda>k s. k = indice t \<and> est r t s)"
  by (simp add: logra_def df_len_def ligar_def df_leer_def devolver_def est_def)

lemma logra_serie:
  "unica t col \<Longrightarrow> logra (est r t) (df_serie r col) (\<lambda>xs s. xs = columna t col \<and> est r t s)"
  by (simp add: logra_def df_serie_def ligar_def df_leer_def elevar_def est_def serie_unica)

lemma logra_asignar: "logra (est r t) (df_asignar r col xs) (\<lambda>u. est r (poner_columna col xs t))"
  by (simp add: logra_def df_asignar_def ligar_def df_leer_def df_escribir_def est_def)

lemma logra_indexar: "logra (est r t) (df_indexar r m) (\<lambda>r'. est r' (filtrar_filas m t))"
  by (simp add: logra_def df_indexar_def ligar_def df_leer_def df_nueva_def est_def)

lemma logra_dropna:
  "unica t col \<Longrightarrow>
   logra (est r t) (df_dropna r col)
     (\<lambda>r'. est r' (filtrar_filas (map (\<lambda>c. \<not> es_nulo c) (columna t col)) t))"
  unfolding df_dropna_def
  by (rule logra_valor[OF logra_serie]) (auto intro: logra_indexar)


lemma logra_comparar:
  "unica t col \<Longrightarrow> todas es_numero col t \<Longrightarrow>
   logra (est r t) (df_comparar r col p) (\<lambda>m s. m = map (cumple p) (columna t col) \<and> est r t s)"
  by (simp add: logra_def df_comparar_def df_serie_def ligar_def df_leer_def elevar_def est_def
        serie_unica traverse_comparar todas_def)

lemma logra_convertir:
  assumes u: "unica t col"
  shows "logra (est r t) (convertir_numerica cv r col av)
           (\<lambda>av' s. av' = av @ aviso_nulos cv col t \<and> est r (convertir cv col t) s)"
  unfolding convertir_numerica_def Let_def
  apply (rule logra_valor[OF logra_serie[OF u]])
  apply (rule logra_ligar[OF logra_asignar])
  apply (rule logra_valor[OF logra_serie])
   apply (simp add: u)
  apply (simp add: u)
  apply (intro conjI impI)
   apply (rule logra_valor[OF logra_serie])
    apply (simp add: u)
   apply (rule logra_ligar[OF logra_asignar])
   apply (rule logra_devolver)
   apply (simp add: u convertir_def columna_convertida_def aviso_nulos_def Let_def)
  apply (rule logra_devolver)
  apply (simp add: u convertir_def columna_convertida_def aviso_nulos_def Let_def)
  done

lemma logra_eliminar:
  assumes u: "unica t col" and n: "todas es_numero col t"
  shows "logra (est r t) (eliminar_negativos r col k av)
           (\<lambda>(r', av') s. est r' (descartar col k t) s \<and> av' = av @ aviso_negativas col k)"
  unfolding eliminar_negativos_def
  apply (simp add: descartar_def aviso_negativas_def)
  apply (intro conjI impI)
   apply (rule logra_valor[OF logra_comparar[OF u n]])
   apply (rule logra_ligar[OF logra_indexar])
   apply (rule logra_devolver)
   apply simp
  apply (rule logra_devolver)
  apply simp
  done


lemma logra_ligar_eliminar:
  assumes u: "unica t col" and n: "todas es_numero col t"
    and f: "\<And>r'. logra (est r' (descartar col k t)) (f (r', av @ aviso_negativas col k)) Q"
  shows "logra (est r t) (ligar (eliminar_negativos r col k av) f) Q"
  by (rule logra_ligar[OF logra_eliminar[OF u n]]) (use f in \<open>auto simp: logra_def\<close>)

section \<open>The cleaner, step by step\<close>

lemma unica_etapas:
  assumes "columnas_de_limpieza t" and "c \<in> {''fecha'', ''cantidad'', ''precio'', ''costo''}"
  shows "unica (con_fechas cv t) c" "unica (tras_fechas cv t) c" "unica (tras_cantidad_num cv t) c"
    "unica (tras_precio_num cv t) c" "unica (tras_numericas cv t) c"
    "unica (tras_cantidad cv t) c" "unica (tras_precio cv t) c" "unica (tabla_limpia cv t) c"
  using assms
  by (auto simp: columnas_de_limpieza_def con_fechas_def tras_fechas_def tras_cantidad_num_def
        tras_precio_num_def tras_numericas_def tras_cantidad_def tras_precio_def tabla_limpia_def)

lemma numericas_etapas:
  assumes "columnas_de_limpieza t" and "c \<in> {''cantidad'', ''precio'', ''costo''}"
  shows "todas es_numero c (tras_numericas cv t)" "todas es_numero c (tras_cantidad cv t)"
    "todas es_numero c (tras_precio cv t)" "todas es_numero c (tabla_limpia cv t)"
proof -
  note u = unica_etapas[OF assms(1)]
  have 1: "todas es_numero ''cantidad'' (tras_cantidad_num cv t)"
    unfolding tras_cantidad_num_def by (rule todas_convertir_mismo) (simp add: u)
  have 2: "todas es_numero ''cantidad'' (tras_precio_num cv t)"
    "todas es_numero ''precio'' (tras_precio_num cv t)"
    unfolding tras_precio_num_def
    by (simp add: todas_convertir_otro 1, rule todas_convertir_mismo, simp add: u)
  have 3: "todas es_numero ''cantidad'' (tras_numericas cv t)"
    "todas es_numero ''precio'' (tras_numericas cv t)"
    "todas es_numero ''costo'' (tras_numericas cv t)"
    unfolding tras_numericas_def
    by (simp add: todas_convertir_otro 2, simp add: todas_convertir_otro 2,
        rule todas_convertir_mismo, simp add: u)
  from 3 assms(2) show a: "todas es_numero c (tras_numericas cv t)" by auto
  then show b: "todas es_numero c (tras_cantidad cv t)"
    unfolding tras_cantidad_def using assms(2) by (intro todas_descartar) (auto simp: u)
  then show d: "todas es_numero c (tras_precio cv t)"
    unfolding tras_precio_def using assms(2) by (intro todas_descartar) (auto simp: u)
  then show "todas es_numero c (tabla_limpia cv t)"
    unfolding tabla_limpia_def using assms(2) by (intro todas_descartar) (auto simp: u)
qed

lemma logra_limpiar:
  assumes c: "columnas_de_limpieza t"
  shows "logra (est r t) (limpiar cv r)
           (\<lambda>(r', rl) s. est r' (tabla_limpia cv t) s \<and>
              rl = \<lparr> filas_eliminadas = int (indice t) - int (indice (tabla_limpia cv t)),
                     advertencias_limpieza = avisos_limpieza cv t \<rparr>)"
proof -
  note u = unica_etapas[OF c]
  note n = numericas_etapas[OF c]
  have uf: "unica t ''fecha''" using c by (simp add: columnas_de_limpieza_def)
  show ?thesis
    unfolding limpiar_def Let_def para_cada.simps
    apply (rule logra_ligar[OF logra_copy])
    apply (rule logra_valor[OF logra_len])
    apply (rule logra_valor[OF logra_serie[OF uf]])
    apply (rule logra_ligar[OF logra_asignar])
    apply (fold con_fechas_def)
    apply (rule logra_valor[OF logra_serie[OF u(1)]], simp)
    apply (rule logra_ligar[OF logra_dropna[OF u(1)]], simp)
    apply (fold tras_fechas_def)
    apply (simp only: ligar_asociativa ligar_devolver)
    apply (rule logra_valor[OF logra_convertir[OF u(2)]], simp)
    apply (fold tras_cantidad_num_def)
    apply (rule logra_valor[OF logra_convertir[OF u(3)]], simp)
    apply (fold tras_precio_num_def)
    apply (rule logra_valor[OF logra_convertir[OF u(4)]], simp)
    apply (fold tras_numericas_def)
    apply (rule logra_valor[OF logra_comparar[OF u(5) n(1)]], simp, simp)
    apply (fold negativas_def)
    apply (rule logra_ligar_eliminar[OF u(5) n(1)], simp, simp)
    apply (simp only: prod.case)
    apply (fold tras_cantidad_def)
    apply (rule logra_valor[OF logra_comparar[OF u(6) n(2)]], simp, simp)
    apply (rule logra_valor[OF logra_comparar[OF u(6) n(2)]], simp, simp)
    apply (fold negativas_def)
    apply (rule logra_ligar_eliminar[OF u(6) n(2)], simp, simp)
    apply (simp only: prod.case)
    apply (fold tras_precio_def)
    apply (rule logra_ligar_eliminar[OF u(7) n(3)], simp, simp)
    apply (simp only: prod.case)
    apply (fold tabla_limpia_def)
    apply (rule logra_valor[OF logra_len])
    apply (rule logra_devolver)
    apply (simp add: avisos_limpieza_def aviso_fechas_def Let_def)
    done
qed


lemma limpia_sin_negativos:
  assumes c: "columnas_de_limpieza t"
  shows "todas no_negativa ''cantidad'' (tabla_limpia cv t)"
    and "todas no_negativa ''precio'' (tabla_limpia cv t)"
    and "todas no_negativa ''costo'' (tabla_limpia cv t)"
proof -
  note u = unica_etapas[OF c]
  note n = numericas_etapas[OF c]
  have 1: "todas no_negativa ''cantidad'' (tras_cantidad cv t)"
    unfolding tras_cantidad_def
    by (rule descartar_no_negativas) (simp_all add: u n negativas_cero)
  have 2: "todas no_negativa ''cantidad'' (tras_precio cv t)"
    unfolding tras_precio_def by (rule todas_descartar) (simp_all add: u 1)
  show "todas no_negativa ''cantidad'' (tabla_limpia cv t)"
    unfolding tabla_limpia_def by (rule todas_descartar) (simp_all add: u 2)
  have 3: "todas no_negativa ''precio'' (tras_precio cv t)"
    unfolding tras_precio_def
    by (rule descartar_no_negativas) (simp_all add: u n negativas_cero)
  show "todas no_negativa ''precio'' (tabla_limpia cv t)"
    unfolding tabla_limpia_def by (rule todas_descartar) (simp_all add: u 3)
  have 4: "negativas ''costo'' (tras_cantidad cv t) = 0 \<Longrightarrow> todas no_negativa ''costo'' (tras_precio cv t)"
    unfolding tras_precio_def
    by (rule todas_descartar) (simp_all add: u n negativas_cero)
  show "todas no_negativa ''costo'' (tabla_limpia cv t)"
    unfolding tabla_limpia_def
    by (rule descartar_no_negativas) (simp_all add: u 4)
qed

lemma limpia_con_fecha:
  assumes c: "columnas_de_limpieza t"
  shows "todas con_valor ''fecha'' (tabla_limpia cv t)"
proof -
  note u = unica_etapas[OF c]
  have 1: "todas con_valor ''fecha'' (tras_fechas cv t)"
    using por_mascara_propia[of con_valor "columna (con_fechas cv t) ''fecha''"]
    by (simp add: tras_fechas_def todas_def u con_valor_def[abs_def])
  have 2: "todas con_valor ''fecha'' (tras_numericas cv t)"
    by (simp add: tras_numericas_def tras_precio_num_def tras_cantidad_num_def todas_convertir_otro 1)
  have 3: "todas con_valor ''fecha'' (tras_cantidad cv t)"
    unfolding tras_cantidad_def by (rule todas_descartar) (simp_all add: u 2)
  have 4: "todas con_valor ''fecha'' (tras_precio cv t)"
    unfolding tras_precio_def by (rule todas_descartar) (simp_all add: u 3)
  show ?thesis
    unfolding tabla_limpia_def by (rule todas_descartar) (simp_all add: u 4)
qed

lemma limpiar_ejecucion:
  assumes r: "r < length s" and c: "columnas_de_limpieza (s ! r)"
  shows "\<exists>r'. fst (limpiar cv r s)
            = Inr (r', \<lparr> filas_eliminadas =
                           int (indice (s ! r)) - int (indice (tabla_limpia cv (s ! r))),
                         advertencias_limpieza = avisos_limpieza cv (s ! r) \<rparr>)
          \<and> r' < length (snd (limpiar cv r s))
          \<and> snd (limpiar cv r s) ! r' = tabla_limpia cv (s ! r)"
  using logra_limpiar[OF c, of r cv] r
  by (auto simp: logra_def est_def)

section \<open>The filter depends on the table it is given only\<close>

lemma ejecutar_ligar: "ligar m f s = (case m s of (Inl e, s') \<Rightarrow> (Inl e, s') | (Inr x, s') \<Rightarrow> f x s')"
  by (simp add: ligar_def)

lemma ejecutar_copy: "df_copy r s = (Inr (length s), s @ [s ! r])"
  by (simp add: df_copy_def ligar_def df_leer_def df_nueva_def)

lemma ejecutar_serie: "df_serie r col s = (serie (s ! r) col, s)"
  by (simp add: df_serie_def ligar_def df_leer_def elevar_def)

lemma ejecutar_indexar: "df_indexar r m s = (Inr (length s), s @ [filtrar_filas m (s ! r)])"
  by (simp add: df_indexar_def ligar_def df_leer_def df_nueva_def)

lemma ejecutar_entre_fechas:
  "df_entre_fechas r a b s =
     (entonces (serie (s ! r) ''fecha'') (\<lambda>xs.
      entonces (traverse (comparar_marca (\<lambda>t. t \<ge> a)) xs) (\<lambda>desde.
      entonces (traverse (comparar_marca (\<lambda>t. t \<le> b)) xs) (\<lambda>hasta.
      Inr (map (\<lambda>(a, b). a \<and> b) (zip desde hasta))))), s)"
  by (simp add: df_entre_fechas_def ejecutar_ligar ejecutar_serie elevar_def devolver_def entonces_def
      split: sum.splits)

lemma ejecutar_filtrar_por:
  "filtrar_por r col v todos s =
     (case v of None \<Rightarrow> (Inr r, s)
      | Some w \<Rightarrow> if w \<noteq> [] \<and> w \<noteq> todos then
           (case serie (s ! r) col of Inl e \<Rightarrow> (Inl e, s)
            | Inr xs \<Rightarrow> (Inr (length s), s @ [filtrar_filas (map (igual_texto w) xs) (s ! r)]))
         else (Inr r, s))"
  by (simp add: filtrar_por_def ejecutar_ligar ejecutar_serie ejecutar_indexar devolver_def
      split: sum.splits option.splits)

lemma contenido_aplicar:
  "r < length s \<Longrightarrow> contenido (aplicar r f) s = contenido (aplicar 0 f) [s ! r]"
  by (simp add: contenido_def aplicar_def ejecutar_ligar ejecutar_copy ejecutar_entre_fechas
        ejecutar_indexar ejecutar_filtrar_por devolver_def nth_append
      split: sum.splits option.splits)


lemma aplicar_dos_veces:
  assumes r: "r < length s" and r1: "fst (aplicar r f1 s) = Inr r1"
  shows "contenido (aplicar r f2) (snd (aplicar r f1 s)) = contenido (aplicar r f2) s"
    and "snd (aplicar r f2 (snd (aplicar r f1 s))) ! r = s ! r"
    and "snd (aplicar r f2 (snd (aplicar r f1 s))) ! r1 = snd (aplicar r f1 s) ! r1"
proof -
  let ?s1 = "snd (aplicar r f1 s)"
  let ?s2 = "snd (aplicar r f2 ?s1)"
  note a = marco_resultado[OF marco_aplicar, of s r f1]
  note b = marco_resultado[OF marco_aplicar, of ?s1 r f2]
  from a r1 have l1: "length s \<le> r1" "r1 < length ?s1" by auto
  with r have rs1: "r < length ?s1" by simp
  from a have "take (length s) ?s1 ! r = s ! r" by simp
  with r have same: "?s1 ! r = s ! r" by simp
  show "contenido (aplicar r f2) ?s1 = contenido (aplicar r f2) s"
    by (simp add: contenido_aplicar[OF rs1] contenido_aplicar[OF r] same)
  from b have t: "take (length ?s1) ?s2 = ?s1" by simp
  from t have "take (length ?s1) ?s2 ! r = ?s1 ! r" by simp
  with rs1 same show "?s2 ! r = s ! r" by simp
  from t have "take (length ?s1) ?s2 ! r1 = ?s1 ! r1" by simp
  with l1 show "?s2 ! r1 = ?s1 ! r1" by simp
qed

section \<open>The validator and the normaliser: auxiliary facts\<close>

lemma hay_negativos_texto:
  "serie t col = Inr xs \<Longrightarrow> Texto v \<in> set xs \<Longrightarrow> hay_negativos t col = Inl TypeError"
proof -
  have "Texto v \<in> set xs \<Longrightarrow> traverse (comparar_numero p) xs = Inl TypeError" for p
  proof (induction xs)
    case Nil then show ?case by simp
  next
    case (Cons a xs)
    then show ?case by (cases a) (auto split: sum.splits)
  qed
  then show "serie t col = Inr xs \<Longrightarrow> Texto v \<in> set xs \<Longrightarrow> hay_negativos t col = Inl TypeError"
    by (simp add: hay_negativos_def entonces_def)
qed

lemma validar_excede_maximo:
  "int (indice t) > max_filas_csv config \<Longrightarrow>
   validar cv esquema config t
     = Inr \<lparr> es_valido = False,
             errores = [ExcedeMaximoFilas (indice t) (max_filas_csv config)],
             advertencias = [] \<rparr>"
  by (simp add: validar_def)

lemma validar_faltan_columnas:
  "\<not> int (indice t) > max_filas_csv config \<Longrightarrow>
   filter (\<lambda>c. c \<notin> set (etiquetas t)) (columnas_requeridas esquema) \<noteq> [] \<Longrightarrow>
   validar cv esquema config t
     = Inr \<lparr> es_valido = False,
             errores = [FaltanColumnas
                          (filter (\<lambda>c. c \<notin> set (etiquetas t)) (columnas_requeridas esquema))],
             advertencias = [] \<rparr>"
  by (simp add: validar_def Let_def)

lemma traverse_comparar_Inr:
  "traverse (comparar_numero p) xs = Inr m \<Longrightarrow> list_all (\<lambda>c. c = Nulo \<or> es_numero c) xs"
proof (induction xs arbitrary: m)
  case Nil then show ?case by simp
next
  case (Cons a xs)
  then show ?case by (cases a) (auto simp: es_numero_def split: sum.splits)
qed

lemma numero_o_nulo_convertible:
  "c = Nulo \<or> es_numero c \<Longrightarrow> to_numeric_celda cv c \<noteq> NoConvertible"
  by (cases c) (auto simp: to_numeric_celda_def es_numero_def)

lemma hay_negativos_convertible:
  assumes "hay_negativos t col = Inr b"
  shows "columna_numerica_convertible cv t col"
proof -
  from assms obtain xs m where
    xs: "serie t col = Inr xs" and m: "traverse (comparar_numero (\<lambda>x. x < 0)) xs = Inr m"
    by (auto simp: hay_negativos_def entonces_def split: sum.splits)
  from traverse_comparar_Inr[OF m] have "list_all (\<lambda>c. to_numeric_celda cv c \<noteq> NoConvertible) xs"
    by (auto simp: list_all_iff numero_o_nulo_convertible)
  with xs show ?thesis by (simp add: columna_numerica_convertible_def)
qed

lemma validar_sin_error_numerico:
  assumes "validar cv esquema config t = Inr res"
  shows "NumeroNoConvertible col \<notin> set (errores res)"
proof (cases "int (indice t) > max_filas_csv config")
  case True
  with assms show ?thesis by (auto simp: validar_excede_maximo)
next
  case False
  show ?thesis
  proof (cases "filter (\<lambda>c. c \<notin> set (etiquetas t)) (columnas_requeridas esquema) = []")
    case False
    with assms \<open>\<not> int (indice t) > max_filas_csv config\<close> show ?thesis
      by (auto simp: validar_faltan_columnas)
  next
    case True
    from assms False True obtain b1 b2 b3 where
      n: "hay_negativos t ''cantidad'' = Inr b1" "hay_negativos t ''precio'' = Inr b2"
         "hay_negativos t ''costo'' = Inr b3"
      by (auto simp: validar_def Let_def entonces_def split: sum.splits)
    note c = n[THEN hay_negativos_convertible, of cv]
    from assms False True c show ?thesis
      by (auto simp: validar_def Let_def entonces_def split: sum.splits if_splits)
  qed
qed

lemma map_of_mapa:
  "map_of (foldl (\<lambda>mapa col. AList.update col (f col) mapa) m0 cols) c
     = (if c \<in> set cols then Some (f c) else map_of m0 c)"
  by (induction cols arbitrary: m0) (auto simp: update_conv')

lemma map_of_construir:
  "c \<in> set cols \<Longrightarrow> map_of (construir_mapa_renombre esquema cols) c = Some (nombre_estandar esquema c)"
  by (simp add: construir_mapa_renombre_def map_of_mapa)

lemma renombrar_construir:
  "renombrar (construir_mapa_renombre esquema (etiquetas t)) t
     = t \<lparr> columnas := map (\<lambda>(c, xs). (nombre_estandar esquema c, xs)) (columnas t) \<rparr>"
proof -
  have "map (\<lambda>(c, xs). (case map_of (construir_mapa_renombre esquema (etiquetas t)) c of
                           Some n \<Rightarrow> n | None \<Rightarrow> c, xs)) (columnas t)
        = map (\<lambda>(c, xs). (nombre_estandar esquema c, xs)) (columnas t)"
  proof (rule map_cong[OF refl])
    fix x assume x: "x \<in> set (columnas t)"
    then have "fst x \<in> set (etiquetas t)" by (simp add: etiquetas_def)
    from map_of_construir[OF this, of esquema] show
      "(case x of (c, xs) \<Rightarrow> (case map_of (construir_mapa_renombre esquema (etiquetas t)) c of
                           Some n \<Rightarrow> n | None \<Rightarrow> c, xs))
       = (case x of (c, xs) \<Rightarrow> (nombre_estandar esquema c, xs))"
      by (cases x) simp
  qed
  then show ?thesis by (simp add: renombrar_def)
qed

lemma contenido_normalizar:
  "r < length s \<Longrightarrow>
   contenido (normalizar esquema r) s
     = Inr ((s ! r) \<lparr> columnas := map (\<lambda>(c, xs). (nombre_estandar esquema c, xs)) (columnas (s ! r)) \<rparr>)"
  by (simp add: contenido_def normalizar_def Let_def ejecutar_ligar ejecutar_copy df_leer_def
        df_nueva_def devolver_def nth_append renombrar_construir)

lemma espacio_minuscula: "es_espacio (minuscula c) = es_espacio c"
  by (auto simp: es_espacio_def minuscula_def Let_def)

lemma lower_strip: "lower (strip s) = strip (lower s)"
  by (simp add: lower_def strip_def dropWhile_map rev_map o_def espacio_minuscula)

lemma limpiar_nombre_sin_caja:
  "lower a = lower b \<Longrightarrow> limpiar_nombre_columna a = limpiar_nombre_columna b"
  by (simp add: limpiar_nombre_columna_def Let_def lower_strip)

lemma strip_rodeado:
  assumes a: "list_all es_espacio a" and b: "list_all es_espacio b"
  shows "strip (a @ s @ b) = strip s"
proof -
  have 1: "dropWhile es_espacio (a @ s @ b) = dropWhile es_espacio (s @ b)"
    using a by (simp add: dropWhile_append list_all_iff)
  have rb: "\<forall>x\<in>set (rev b). es_espacio x" using b by (simp add: list_all_iff)
  show ?thesis
  proof (cases "list_all es_espacio s")
    case True
    then have e: "dropWhile es_espacio (s @ b) = []" "dropWhile es_espacio s = []"
      using b by (simp_all add: dropWhile_eq_Nil_conv list_all_iff)
    show ?thesis unfolding strip_def 1 e by simp
  next
    case False
    then have e: "dropWhile es_espacio (s @ b) = dropWhile es_espacio s @ b"
      by (auto simp: list_all_iff dropWhile_append1)
    show ?thesis unfolding strip_def 1 e using rb by (simp add: dropWhile_append)
  qed
qed

lemma limpiar_nombre_rodeado:
  "list_all es_espacio a \<Longrightarrow> list_all es_espacio b \<Longrightarrow>
   limpiar_nombre_columna (a @ s @ b) = limpiar_nombre_columna s"
  by (simp add: limpiar_nombre_columna_def Let_def strip_rodeado)

lemma nombres_de_ejemplo:
  "nombre_estandar esquema_por_defecto region_con_o_acentuada = ''region''"
  "nombre_estandar esquema_por_defecto ''REGION'' = ''region''"
  "nombre_estandar esquema_por_defecto region_con_e_acentuada = region_con_e_acentuada"
  "region_con_e_acentuada \<noteq> ''region''"
  "nombre_estandar esquema_por_defecto ''  Id   Orden '' = ''id_orden''"
  by code_simp+

lemma colapsar_sin_espacios:
  "list_all (\<lambda>c. \<not> es_espacio c) s \<Longrightarrow> colapsar_espacios s = s"
  by (induction s) auto

lemma colapsar_palabras:
  assumes a: "list_all (\<lambda>c. \<not> es_espacio c) a"
    and w: "list_all es_espacio w" "w \<noteq> []"
    and b: "list_all (\<lambda>c. \<not> es_espacio c) b" "b \<noteq> []"
  shows "colapsar_espacios (a @ w @ b) = a @ CHR '' '' # b"
using a proof (induction a)
  case Nil
  from w obtain x xs where x: "w = x # xs" "es_espacio x" "list_all es_espacio xs"
    by (cases w) auto
  from b obtain y ys where y: "b = y # ys" "\<not> es_espacio y" by (cases b) auto
  from x y have "dropWhile es_espacio (xs @ b) = b"
    by (simp add: dropWhile_append list_all_iff)
  with x b show ?case by (simp add: colapsar_sin_espacios)
next
  case (Cons c cs)
  then show ?case by simp
qed

lemma colapsar_un_espacio:
  "c \<in> set (colapsar_espacios s) \<Longrightarrow> c = CHR '' '' \<or> \<not> es_espacio c"
  by (induction s rule: colapsar_espacios.induct) (auto split: if_splits)

lemma guion_no_es_espacio: "\<not> es_espacio (CHR ''_'')" "es_espacio (CHR '' '')"
  by code_simp+

lemma limpiar_nombre_sin_espacios:
  "list_all (\<lambda>c. \<not> es_espacio c) (limpiar_nombre_columna s)"
  by (auto simp: limpiar_nombre_columna_def Let_def reemplazar_def list_all_iff
        guion_no_es_espacio dest: colapsar_un_espacio)

lemma strip_palabras:
  assumes "a \<noteq> []" "\<not> es_espacio (hd a)" "b \<noteq> []" "\<not> es_espacio (last b)"
  shows "strip (a @ w @ b) = a @ w @ b"
proof -
  from assms obtain x xs where x: "a = x # xs" "\<not> es_espacio x" by (cases a) auto
  from assms obtain y ys where y: "b = ys @ [y]" "\<not> es_espacio y"
    by (cases b rule: rev_cases) auto
  show ?thesis by (simp add: strip_def x y)
qed

lemma limpiar_nombre_dos_palabras:
  assumes a: "list_all (\<lambda>c. \<not> es_espacio c) a" "a \<noteq> []"
    and w: "list_all es_espacio w" "w \<noteq> []"
    and b: "list_all (\<lambda>c. \<not> es_espacio c) b" "b \<noteq> []"
  shows "limpiar_nombre_columna (a @ w @ b) = lower a @ CHR ''_'' # lower b"
proof -
  from a have ha: "\<not> es_espacio (hd a)" by (cases a) auto
  from b have lb: "\<not> es_espacio (last b)" by (cases b rule: rev_cases) auto
  have s: "strip (a @ w @ b) = a @ w @ b"
    by (rule strip_palabras) (use a b ha lb in auto)
  have la: "list_all (\<lambda>c. \<not> es_espacio c) (lower a)" "list_all (\<lambda>c. \<not> es_espacio c) (lower b)"
    and lw: "list_all es_espacio (lower w)"
    using a b w by (simp_all add: lower_def list_all_iff espacio_minuscula)
  have c: "colapsar_espacios (lower a @ lower w @ lower b) = lower a @ CHR '' '' # lower b"
    by (rule colapsar_palabras) (use la lw w b in \<open>auto simp: lower_def\<close>)
  have r: "reemplazar (CHR '' '') (CHR ''_'') x = x" if "list_all (\<lambda>c. \<not> es_espacio c) x" for x
  proof -
    from that have "CHR '' '' \<notin> set x"
      using guion_no_es_espacio(2) by (auto simp: list_all_iff)
    then show ?thesis by (auto simp: reemplazar_def intro!: map_idI)
  qed
  have l: "lower (a @ w @ b) = lower a @ lower w @ lower b" by (simp add: lower_def)
  show ?thesis
    unfolding limpiar_nombre_columna_def Let_def s l c
    using r[OF la(1)] r[OF la(2)] by (simp add: reemplazar_def)
qed

section \<open>The forecaster: auxiliary facts\<close>


lemma traverse_celda_valor:
  "list_all (\<lambda>c. c = Nulo \<or> es_numero c) xs \<Longrightarrow>
   traverse celda_valor xs = Inr (map (\<lambda>c. case c of Numero x \<Rightarrow> Some x | _ \<Rightarrow> None) xs)"
proof (induction xs)
  case Nil then show ?case by simp
next
  case (Cons a xs) then show ?case by (cases a) (auto simp: es_numero_def)
qed

lemma serie_columna: "unica t col \<Longrightarrow> serie t col = Inr (columna t col)"
  by (cases "seleccionar t col"; cases "tl (seleccionar t col)")
     (auto simp: unica_def serie_def columna_def)

lemma valores_numeros:
  "unica t col \<Longrightarrow> todas (\<lambda>c. c = Nulo \<or> es_numero c) col t \<Longrightarrow> valores t col = Inr (numeros t col)"
  by (simp add: valores_def serie_columna entonces_def todas_def traverse_celda_valor numeros_def)






lemma indices_futuros:
  "0 < n \<Longrightarrow>
   map f [last [0..<n] + 1..<last [0..<n] + m + 1] = map (\<lambda>k. f (n + k)) [0..<m]"
proof -
  assume n: "0 < n"
  then have l: "last [0..<n] = n - 1" by (simp add: last_upt)
  have "[n..<n + m] = map (\<lambda>k. k + n) [0..<m]" by (simp add: map_add_upt add.commute)
  then have "map f [n..<n + m] = map (\<lambda>k. f (n + k)) [0..<m]"
    by (simp add: o_def add.commute)
  with n l show ?thesis by simp
qed








section \<open>The forecaster: failures and calendar days\<close>










section \<open>The insight generator: auxiliary facts\<close>

lemma entonces_Inr: "entonces (Inr x) f = f x"
  by (simp add: entonces_def)

lemma unica_etiqueta: "unica t col \<Longrightarrow> col \<in> set (etiquetas t)"
proof -
  assume "unica t col"
  then have "seleccionar t col \<noteq> []" by (auto simp: unica_def)
  then show ?thesis by (force simp: seleccionar_def etiquetas_def filter_empty_conv)
qed

lemma tiene_valores_opcional:
  "columna_opcional t col \<Longrightarrow>
   tiene_valores t col = Inr (col \<in> set (etiquetas t) \<and> list_ex con_valor (columna t col))"
  by (auto simp: tiene_valores_def columna_opcional_def serie_columna entonces_def alguno_def
        list_ex_iff con_valor_def)

lemma agrupar_dimension_grupos:
  "unica t col \<Longrightarrow> valores t ''ingresos'' = Inr (numeros t ''ingresos'') \<Longrightarrow>
   valores t ''margen'' = Inr (numeros t ''margen'') \<Longrightarrow>
   agrupar_dimension orden t col = Inr (grupos_dimension orden t col)"
  by (simp add: agrupar_dimension_def serie_columna entonces_Inr grupos_dimension_def Let_def)

lemma agrupar_productos_grupos:
  "unica t ''id_producto'' \<Longrightarrow> valores t ''ingresos'' = Inr (numeros t ''ingresos'') \<Longrightarrow>
   valores t ''margen'' = Inr (numeros t ''margen'') \<Longrightarrow>
   valores t ''cantidad'' = Inr (numeros t ''cantidad'') \<Longrightarrow>
   agrupar_productos orden t = Inr (grupos_producto orden t)"
  by (simp add: agrupar_productos_def serie_columna entonces_Inr grupos_producto_def Let_def)

lemma claves_validas:
  assumes "orden_valida orden"
  shows "distinct (claves_de orden ks)"
    and "set (claves_de orden ks) = {k \<in> set ks. con_valor k}"
proof -
  let ?d = "remdups (filter (\<lambda>c. \<not> es_nulo c) ks)"
  have "distinct ?d" by simp
  with assms have "distinct (ordenar_claves orden ?d) \<and> set (ordenar_claves orden ?d) = set ?d"
    unfolding orden_valida_def by blast
  then show "distinct (claves_de orden ks)"
    and "set (claves_de orden ks) = {k \<in> set ks. con_valor k}"
    by (auto simp: claves_de_def con_valor_def)
qed

lemma claves_vacias:
  "orden_valida orden \<Longrightarrow> (claves_de orden ks = []) = (\<not> list_ex con_valor ks)"
proof -
  assume v: "orden_valida orden"
  have "(claves_de orden ks = []) = (set (claves_de orden ks) = {})" by simp
  also have "\<dots> = (\<not> list_ex con_valor ks)"
    unfolding claves_validas(2)[OF v] by (auto simp: list_ex_iff)
  finally show ?thesis .
qed

lemma argsort_valido:
  assumes "orden_valida orden"
  shows "distinct (argsort_desc orden vs)"
    and "set (argsort_desc orden vs) = {..<length vs}"
    and "sorted (map (\<lambda>i. - (vs ! i)) (argsort_desc orden vs))"
    and "length (argsort_desc orden vs) = length vs"
proof -
  from assms show d: "distinct (argsort_desc orden vs)"
    and s: "set (argsort_desc orden vs) = {..<length vs}"
    and "sorted (map (\<lambda>i. - (vs ! i)) (argsort_desc orden vs))"
    unfolding orden_valida_def by blast+
  from distinct_card[OF d] s show "length (argsort_desc orden vs) = length vs" by simp
qed

lemma sort_values_longitud:
  "orden_valida orden \<Longrightarrow> length (sort_values_desc orden gs) = length gs"
  by (simp add: sort_values_desc_def argsort_valido(4))

lemma sort_values_desc_vacio:
  "orden_valida orden \<Longrightarrow> (sort_values_desc orden gs = []) = (gs = [])"
  using sort_values_longitud[of orden gs] by (metis length_0_conv)

lemma sort_values_conjunto:
  assumes "orden_valida orden"
  shows "set (sort_values_desc orden gs) = set gs"
proof -
  have "set (sort_values_desc orden gs) = (\<lambda>i. gs ! i) ` {..<length gs}"
    by (simp add: sort_values_desc_def argsort_valido(2)[OF assms])
  also have "\<dots> = set gs" by (auto simp: set_conv_nth)
  finally show ?thesis .
qed

lemma suma_sort_values:
  fixes g :: "'a \<times> real \<times> 'b \<Rightarrow> real"
  assumes "orden_valida orden"
  shows "sum_list (map g (sort_values_desc orden gs)) = sum_list (map g gs)"
proof -
  let ?is = "argsort_desc orden (map (\<lambda>g. fst (snd g)) gs)"
  have "sum_list (map g (sort_values_desc orden gs)) = sum_list (map (\<lambda>i. g (gs ! i)) ?is)"
    by (simp add: sort_values_desc_def o_def)
  also have "\<dots> = sum (\<lambda>i. g (gs ! i)) (set ?is)"
    by (rule sum_list_distinct_conv_sum_set) (rule argsort_valido(1)[OF assms])
  also have "\<dots> = sum (\<lambda>i. g (gs ! i)) {0..<length gs}"
    by (simp add: argsort_valido(2)[OF assms] atLeast0LessThan)
  also have "\<dots> = sum (\<lambda>i. map g gs ! i) {0..<length (map g gs)}"
    by (rule sum.cong) simp_all
  also have "\<dots> = sum_list (map g gs)" by (rule sum_list_sum_nth[symmetric])
  finally show ?thesis .
qed

lemma primero_es_maximo:
  assumes v: "orden_valida orden" and g: "g \<in> set (sort_values_desc orden gs)"
  shows "fst (snd g) \<le> fst (snd (hd (sort_values_desc orden gs)))"
proof -
  let ?vs = "map (\<lambda>g. fst (snd g)) gs"
  let ?is = "argsort_desc orden ?vs"
  from g obtain i where i: "i \<in> set ?is" "g = gs ! i"
    by (auto simp: sort_values_desc_def)
  then obtain x ys where c: "?is = x # ys" by (cases ?is) auto
  have r: "j \<in> set ?is \<Longrightarrow> j < length gs" for j
    using argsort_valido(2)[OF v, of ?vs] by simp
  from argsort_valido(3)[OF v, of ?vs] c
  have "\<forall>y \<in> set ys. - (?vs ! x) \<le> - (?vs ! y)" by simp
  with i c have "?vs ! i \<le> ?vs ! x" by auto
  moreover have "?vs ! i = fst (snd (gs ! i))" using r[OF i(1)] by simp
  moreover have "?vs ! x = fst (snd (gs ! x))" using r[of x] c by simp
  moreover have "hd (sort_values_desc orden gs) = gs ! x"
    by (simp add: sort_values_desc_def c)
  ultimately show ?thesis using i by simp
qed

lemma grupos_dimension_vacio:
  "orden_valida orden \<Longrightarrow>
   (grupos_dimension orden t col = []) = (\<not> list_ex con_valor (columna t col))"
  by (simp add: grupos_dimension_def Let_def sort_values_desc_vacio claves_vacias)

lemma grupos_producto_vacio:
  "orden_valida orden \<Longrightarrow>
   (grupos_producto orden t = []) = (\<not> list_ex con_valor (columna t ''id_producto''))"
  by (simp add: grupos_producto_def Let_def sort_values_desc_vacio claves_vacias)

lemma iloc0_hd: "xs \<noteq> [] \<Longrightarrow> iloc0 xs = Inr (hd xs)"
  by (cases xs) (simp_all add: iloc0_def)

lemma lider_es_maximo:
  "orden_valida orden \<Longrightarrow> g \<in> set (grupos_producto orden t) \<Longrightarrow>
   fst (snd g) \<le> fst (snd (producto_lider orden t))"
  unfolding producto_lider_def grupos_producto_def Let_def by (rule primero_es_maximo)

lemma titulos_distintos:
  "titulo_sin_referencia \<noteq> titulo_producto" "titulo_sin_referencia \<noteq> titulo_concentracion"
  "titulo_rendimiento \<noteq> titulo_producto" "titulo_rendimiento \<noteq> titulo_concentracion"
  "titulo_region \<noteq> titulo_producto" "titulo_region \<noteq> titulo_concentracion"
  "titulo_canal \<noteq> titulo_producto" "titulo_canal \<noteq> titulo_concentracion"
  "titulo_producto \<noteq> titulo_concentracion" "titulo_sin_datos \<noteq> titulo_producto"
  "titulo_sin_datos \<noteq> titulo_concentracion"
  by code_simp+

lemma ingresos_anterior_definido:
  "tabla_de_referencia a \<Longrightarrow>
   (if \<not> vacia a then entonces (valores a ''ingresos'') (\<lambda>ws. Inr (sumar ws)) else Inr 0)
     = Inr (if vacia a then 0 else sumar (numeros a ''ingresos''))"
  by (auto simp: tabla_de_referencia_def valores_numeros entonces_Inr)

lemma bloque_dimension:
  assumes "orden_valida orden" and "columna_opcional t col"
    and "valores t ''ingresos'' = Inr (numeros t ''ingresos'')"
    and "valores t ''margen'' = Inr (numeros t ''margen'')"
  shows "entonces (tiene_valores t col) (\<lambda>hay.
           entonces (if hay then
                       entonces (agrupar_dimension orden t col) (\<lambda>por.
                       entonces (iloc0 por) (\<lambda>top. Inr (ins @ [f por top])))
                     else Inr ins) k)
         = k (ins @ (if col \<in> set (etiquetas t) \<and> list_ex con_valor (columna t col)
                     then [f (grupos_dimension orden t col) (hd (grupos_dimension orden t col))]
                     else []))"
proof (cases "col \<in> set (etiquetas t) \<and> list_ex con_valor (columna t col)")
  case True
  with assms(2) have u: "unica t col" by (simp add: columna_opcional_def)
  from True have ne: "grupos_dimension orden t col \<noteq> []"
    by (simp add: grupos_dimension_vacio[OF assms(1)])
  from True show ?thesis
    by (simp add: tiene_valores_opcional[OF assms(2)] entonces_Inr
          agrupar_dimension_grupos[OF u assms(3,4)] iloc0_hd[OF ne])
next
  case False
  then have h: "(col \<in> set (etiquetas t) \<and> list_ex con_valor (columna t col)) = False"
    by simp
  show ?thesis
    by (simp only: tiene_valores_opcional[OF assms(2)] h entonces_Inr if_False append_Nil2)
qed

lemma generar_ejecucion:
  assumes v: "orden_valida orden" and t: "tabla_de_ventas t" and nv: "\<not> vacia t"
    and a: "tabla_de_referencia a"
  shows "\<exists>previos. generar orden t a descripcion = Inr (previos @ insights_de_producto orden t)
           \<and> list_all (\<lambda>i. titulo i \<noteq> titulo_producto \<and> titulo i \<noteq> titulo_concentracion)
                 previos"
proof -
  from t have vi: "valores t ''ingresos'' = Inr (numeros t ''ingresos'')"
    and vm: "valores t ''margen'' = Inr (numeros t ''margen'')"
    and vc: "valores t ''cantidad'' = Inr (numeros t ''cantidad'')"
    and up: "unica t ''id_producto''"
    and oregion: "columna_opcional t ''region''" and ocanal: "columna_opcional t ''canal''"
    by (simp_all add: tabla_de_ventas_def valores_numeros)
  note ap = agrupar_productos_grupos[OF up vi vm vc, of orden]
  have il: "grupos_producto orden t \<noteq> []
              \<Longrightarrow> iloc0 (grupos_producto orden t) = Inr (producto_lider orden t)"
    by (simp add: iloc0_hd producto_lider_def)
  show ?thesis
    unfolding generar_def
    apply (simp only: nv if_False vi entonces_Inr ingresos_anterior_definido[OF a] Let_def
             bloque_dimension[OF v oregion vi vm] bloque_dimension[OF v ocanal vi vm] ap)
    apply (cases "grupos_producto orden t = []")
     apply (simp add: insights_de_producto_def titulos_distintos entonces_Inr)
    apply (simp add: insights_de_producto_def titulos_distintos entonces_Inr il Let_def
             margen_pct_lider_def participacion_lider_def ingresos_con_producto_def)
    done
qed

lemma suma_indicador:
  "distinct ks \<Longrightarrow>
   sum_list (map (\<lambda>k. if k' = k then c else 0) ks) = (if k' \<in> set ks then c else (0::real))"
  by (induction ks) auto

lemma suma_de_grupos:
  "distinct ks \<Longrightarrow>
   sum_list (map (\<lambda>k. sumar (map snd (filter (\<lambda>(k', v). k' = k) zs))) ks)
     = sumar (map snd (filter (\<lambda>(k', v). k' \<in> set ks) zs))"
proof (induction zs)
  case Nil
  then show ?case by (simp add: sumar_def)
next
  case (Cons z zs)
  obtain k' v where z: "z = (k', v)" by (cases z)
  let ?c = "case v of Some x \<Rightarrow> x | None \<Rightarrow> (0::real)"
  have "sum_list (map (\<lambda>k. sumar (map snd (filter (\<lambda>(k', v). k' = k) (z # zs)))) ks)
        = sum_list (map (\<lambda>k. (if k' = k then ?c else 0)
                               + sumar (map snd (filter (\<lambda>(k', v). k' = k) zs))) ks)"
    by (rule arg_cong[where f = sum_list], rule map_cong[OF refl]) (simp add: z sumar_def)
  also have "\<dots> = sum_list (map (\<lambda>k. if k' = k then ?c else 0) ks)
                  + sum_list (map (\<lambda>k. sumar (map snd (filter (\<lambda>(k', v). k' = k) zs))) ks)"
    by (simp add: sum_list_addf)
  also have "\<dots> = (if k' \<in> set ks then ?c else 0)
                  + sumar (map snd (filter (\<lambda>(k', v). k' \<in> set ks) zs))"
    using Cons by (simp add: suma_indicador)
  also have "\<dots> = sumar (map snd (filter (\<lambda>(k', v). k' \<in> set ks) (z # zs)))"
    by (simp add: z sumar_def)
  finally show ?case .
qed

lemma ingresos_con_producto_filas:
  assumes v: "orden_valida orden"
  shows "ingresos_con_producto orden t = ingresos_de_filas_con_producto t"
proof -
  let ?ks = "columna t ''id_producto''"
  let ?vs = "numeros t ''ingresos''"
  have "ingresos_con_producto orden t
        = sum_list (map (\<lambda>k. suma_del_grupo ?ks ?vs k) (claves_de orden ?ks))"
    by (simp add: ingresos_con_producto_def grupos_producto_def Let_def
          suma_sort_values[OF v] o_def)
  also have "\<dots> = sumar (map snd (filter (\<lambda>(k', v). k' \<in> set (claves_de orden ?ks))
                                      (zip ?ks ?vs)))"
    unfolding suma_del_grupo_def by (rule suma_de_grupos) (rule claves_validas(1)[OF v])
  also have "filter (\<lambda>(k', v). k' \<in> set (claves_de orden ?ks)) (zip ?ks ?vs)
             = filter (\<lambda>(k, v). con_valor k) (zip ?ks ?vs)"
    by (rule filter_cong[OF refl]) (auto simp: claves_validas(2)[OF v] dest: set_zip_leftD)
  finally show ?thesis by (simp add: ingresos_de_filas_con_producto_def)
qed

lemma de_titulo_previos:
  "list_all (\<lambda>i. titulo i \<noteq> titulo_producto \<and> titulo i \<noteq> titulo_concentracion) previos \<Longrightarrow>
   de_titulo titulo_producto (previos @ ins) = de_titulo titulo_producto ins
   \<and> de_titulo titulo_concentracion (previos @ ins) = de_titulo titulo_concentracion ins"
  by (simp add: de_titulo_def list_all_iff filter_empty_conv)

lemma lider_en_grupos:
  "orden_valida orden \<Longrightarrow> list_ex con_valor (columna t ''id_producto'') \<Longrightarrow>
   producto_lider orden t \<in> set (grupos_producto orden t)"
  by (simp add: producto_lider_def grupos_producto_vacio)

lemma grupos_producto_conjunto:
  "orden_valida orden \<Longrightarrow>
   set (grupos_producto orden t)
     = (\<lambda>k. (k, suma_del_grupo (columna t ''id_producto'') (numeros t ''ingresos'') k,
                suma_del_grupo (columna t ''id_producto'') (numeros t ''margen'') k,
                suma_del_grupo (columna t ''id_producto'') (numeros t ''cantidad'') k))
       ` {k \<in> set (columna t ''id_producto''). con_valor k}"
  by (simp add: grupos_producto_def Let_def sort_values_conjunto claves_validas(2))

lemma insertar_clave_conjunto:
  "set (insertar_clave k xs) = insert k (set xs)"
  by (induction xs) auto

lemma insertar_clave_distinta:
  "distinct (insertar_clave k xs) = (k \<notin> set xs \<and> distinct xs)"
  by (induction xs) (auto simp: insertar_clave_conjunto)

lemma ordenar_claves_permuta:
  "set (foldr insertar_clave ks []) = set ks
   \<and> (distinct ks \<longrightarrow> distinct (foldr insertar_clave ks []))"
  by (induction ks) (auto simp: insertar_clave_conjunto insertar_clave_distinta)

lemma argsort_estable_valido:
  fixes vs :: "real list"
  defines "is \<equiv> map snd (sort_key (\<lambda>p. - fst p) (zip vs [0..<length vs]))"
  shows "distinct is" and "set is = {..<length vs}"
    and "sorted (map (\<lambda>i. - (vs ! i)) is)"
proof -
  let ?z = "zip vs [0..<length vs]"
  let ?s = "sort_key (\<lambda>p. - fst p) ?z"
  have m: "map snd ?z = [0..<length vs]" by (simp add: map_snd_zip)
  have "distinct (map snd ?z)" unfolding m by (rule distinct_upt)
  then have dz: "distinct ?z \<and> inj_on snd (set ?z)" unfolding distinct_map .
  then show "distinct is" by (simp add: is_def distinct_map)
  have im: "snd ` set ?z = {..<length vs}"
  proof -
    have "snd ` set ?z = set (map snd ?z)" by (rule set_map[symmetric])
    also have "\<dots> = {..<length vs}" unfolding m by (simp add: atLeast0LessThan)
    finally show ?thesis .
  qed
  show "set is = {..<length vs}" unfolding is_def by (simp add: im)
  have "map (\<lambda>i. - (vs ! i)) is = map (\<lambda>p. - fst p) ?s"
    unfolding is_def map_map
  proof (rule map_cong[OF refl])
    fix p assume "p \<in> set ?s"
    then have pz: "p \<in> set ?z" by simp
    obtain a b where p: "p = (a, b)" by (cases p)
    from pz p have "a = vs ! b" by (auto simp: set_zip)
    with p show "((\<lambda>i. - (vs ! i)) \<circ> snd) p = - fst p" by simp
  qed
  then show "sorted (map (\<lambda>i. - (vs ! i)) is)" by simp
qed

lemma orden_estable_valida: "orden_valida orden_estable"
  unfolding orden_valida_def orden_estable_def
  using ordenar_claves_permuta argsort_estable_valido by simp

section \<open>Period comparator\<close>

lemma fecha_civil_enero_2025:
  "fecha_civil 2025 (Suc 0) d = (20088 + d) * un_dia"
  by (simp add: fecha_civil_def ordinal_def dias_antes_del_anio_def dias_antes_del_mes_def)

text \<open>
  C1 (as stated): for the current period 2025-01-15 to 2025-01-21 the prior period
  returned is (2025-01-07, 2025-01-14). The code returns another start date, so the
  statement fails at this very input.
\<close>

theorem obtener_periodos_no_es_7_enero:
  "snd (obtener_periodos (fecha_civil 2025 1 15) (fecha_civil 2025 1 21))
     \<noteq> (fecha_civil 2025 1 7, fecha_civil 2025 1 14)"
  by (simp add: obtener_periodos_def Let_def fecha_civil_enero_2025 timedelta_days_def un_dia_def)

text \<open>
  C1 (amended): for the current period 2025-01-15 to 2025-01-21 the prior period
  returned is (2025-01-08, 2025-01-14). It spans 7 calendar days like the current one,
  ends the day before the current period starts (no gap, no overlap), and for every
  pair of timestamps the prior period is
  (start - duration - 1 day, start - 1 day) with duration = end - start.
\<close>

theorem obtener_periodos_enero_2025:
  "obtener_periodos (fecha_civil 2025 1 15) (fecha_civil 2025 1 21)
     = ((fecha_civil 2025 1 15, fecha_civil 2025 1 21),
        (fecha_civil 2025 1 8, fecha_civil 2025 1 14))
   \<and> fecha_civil 2025 1 21 - fecha_civil 2025 1 15 + un_dia = 7 * un_dia
   \<and> fecha_civil 2025 1 14 - fecha_civil 2025 1 8 + un_dia = 7 * un_dia
   \<and> fecha_civil 2025 1 14 + un_dia = fecha_civil 2025 1 15
   \<and> fecha_civil 2025 1 14 < fecha_civil 2025 1 15
   \<and> obtener_periodos ini fin
       = ((ini, fin), (ini - (fin - ini) - timedelta_days 1, ini - timedelta_days 1))
   \<and> snd (snd (obtener_periodos ini fin)) + un_dia = ini
   \<and> snd (snd (obtener_periodos ini fin)) - fst (snd (obtener_periodos ini fin)) = fin - ini"
  by (simp add: obtener_periodos_def Let_def fecha_civil_enero_2025 timedelta_days_def un_dia_def)

section \<open>Metric comparison\<close>

text \<open>
  C7: for every pair of metric values, comparar_metricas returns
  delta = current - prior, pct_change = (delta / prior) * 100 when prior is not 0 and
  pct_change = 0 when prior is 0, whatever the current value; current = 120 and
  prior = 100 give delta 20 and 20 percent; current = 50 and prior = 0 give delta 50
  and 0 percent.
\<close>

theorem comparar_metricas_formula:
  "actual (comparar_metricas a p) = a
   \<and> anterior (comparar_metricas a p) = p
   \<and> diferencia (comparar_metricas a p) = a - p
   \<and> (p \<noteq> 0 \<longrightarrow> variacion_pct (comparar_metricas a p) = ((a - p) / p) * 100)
   \<and> (p = 0 \<longrightarrow> variacion_pct (comparar_metricas a p) = 0)
   \<and> diferencia (comparar_metricas 120 100) = 20
   \<and> variacion_pct (comparar_metricas 120 100) = 20
   \<and> diferencia (comparar_metricas 50 0) = 50
   \<and> variacion_pct (comparar_metricas 50 0) = 0"
  by (simp add: comparar_metricas_def Let_def)

theorem comparar_metricas_formula_witness:
  "(100::real) \<noteq> 0
   \<and> variacion_pct (comparar_metricas 120 100) = ((120 - 100) / 100) * 100
   \<and> diferencia (comparar_metricas 120 100) = 120 - 100
   \<and> variacion_pct (comparar_metricas 50 0) = 0
   \<and> diferencia (comparar_metricas 50 0) = 50 - 0"
  using comparar_metricas_formula [of 120 100] comparar_metricas_formula [of 50 0]
  by simp

section \<open>No stage mutates its input table\<close>

text \<open>
  C2: no pipeline stage mutates its input table. For every store s, every reference r
  and every argument, after NormalizadorColumnas.normalizar, LimpiadorDatos.limpiar,
  TransformadorVentas.transformar or FiltroDatos.aplicar has run on r (whether it
  returned or raised) every object that existed before the call is unchanged, the
  caller's table among them, and a table that is returned is a new object of the final
  store. So two filter selections applied to the same base table do not interfere: the
  second call sees the base table as the first one found it and returns what it would
  have returned without the first, and it leaves the base table and the first result
  as they were.
\<close>

theorem etapas_no_mutan_entrada:
  "take (length s) (snd (normalizar esquema r s)) = s
   \<and> (\<forall>r'. fst (normalizar esquema r s) = Inr r'
         \<longrightarrow> length s \<le> r' \<and> r' < length (snd (normalizar esquema r s)))
   \<and> take (length s) (snd (limpiar cv r s)) = s
   \<and> (\<forall>r' rl. fst (limpiar cv r s) = Inr (r', rl)
         \<longrightarrow> length s \<le> r' \<and> r' < length (snd (limpiar cv r s)))
   \<and> take (length s) (snd (transformar r s)) = s
   \<and> (\<forall>r'. fst (transformar r s) = Inr r'
         \<longrightarrow> length s \<le> r' \<and> r' < length (snd (transformar r s)))
   \<and> take (length s) (snd (aplicar r f1 s)) = s
   \<and> (\<forall>r'. fst (aplicar r f1 s) = Inr r'
         \<longrightarrow> length s \<le> r' \<and> r' < length (snd (aplicar r f1 s)))
   \<and> (\<forall>r1. r < length s \<and> fst (aplicar r f1 s) = Inr r1 \<longrightarrow>
         contenido (aplicar r f2) (snd (aplicar r f1 s)) = contenido (aplicar r f2) s
         \<and> snd (aplicar r f2 (snd (aplicar r f1 s))) ! r = s ! r
         \<and> snd (aplicar r f2 (snd (aplicar r f1 s))) ! r1 = snd (aplicar r f1 s) ! r1)"
proof -
  note n = marco_resultado[OF marco_normalizar, of s esquema r]
  note l = marco_resultado_par[OF marco_limpiar, of s cv r]
  note t = marco_resultado[OF marco_transformar, of s r]
  note a = marco_resultado[OF marco_aplicar, of s r f1]
  have d: "\<forall>r1. r < length s \<and> fst (aplicar r f1 s) = Inr r1 \<longrightarrow>
         contenido (aplicar r f2) (snd (aplicar r f1 s)) = contenido (aplicar r f2) s
         \<and> snd (aplicar r f2 (snd (aplicar r f1 s))) ! r = s ! r
         \<and> snd (aplicar r f2 (snd (aplicar r f1 s))) ! r1 = snd (aplicar r f1 s) ! r1"
    using aplicar_dos_veces[of r s f1 _ f2] by simp
  from n l t a d show ?thesis by simp
qed

text \<open>
  The theorem at a store that holds one table of one row, with two filter selections.
\<close>

theorem etapas_no_mutan_entrada_witness:
  "(0::nat) < length [tabla_ejemplo] \<and> fst (aplicar 0 filtro_a [tabla_ejemplo]) = Inr 3
   \<and> fst (normalizar esquema_por_defecto 0 [tabla_ejemplo]) = Inr 2
   \<and> fst (transformar 0 [tabla_ejemplo]) = Inr 1
   \<and> fst (limpiar conversor_estricto 0 [tabla_ejemplo]) = Inr (2, \<lparr> filas_eliminadas = 0, advertencias_limpieza = [] \<rparr>)
   \<and> length [tabla_ejemplo] \<le> 3 \<and> 3 < length (snd (aplicar 0 filtro_a [tabla_ejemplo]))
   \<and> take (length [tabla_ejemplo]) (snd (aplicar 0 filtro_a [tabla_ejemplo])) = [tabla_ejemplo]
   \<and> take (length [tabla_ejemplo]) (snd (limpiar conversor_estricto 0 [tabla_ejemplo])) = [tabla_ejemplo]
   \<and> take (length [tabla_ejemplo]) (snd (transformar 0 [tabla_ejemplo])) = [tabla_ejemplo]
   \<and> take (length [tabla_ejemplo]) (snd (normalizar esquema_por_defecto 0 [tabla_ejemplo])) = [tabla_ejemplo]
   \<and> contenido (aplicar 0 filtro_b) (snd (aplicar 0 filtro_a [tabla_ejemplo])) = contenido (aplicar 0 filtro_b) [tabla_ejemplo]
   \<and> snd (aplicar 0 filtro_b (snd (aplicar 0 filtro_a [tabla_ejemplo]))) ! 0 = [tabla_ejemplo] ! 0
   \<and> snd (aplicar 0 filtro_b (snd (aplicar 0 filtro_a [tabla_ejemplo]))) ! 3 = snd (aplicar 0 filtro_a [tabla_ejemplo]) ! 3"
proof -
  have a: "(0::nat) < length [tabla_ejemplo]" by simp
  have b: "fst (aplicar 0 filtro_a [tabla_ejemplo]) = Inr 3" by code_simp
  have c: "fst (normalizar esquema_por_defecto 0 [tabla_ejemplo]) = Inr 2" by code_simp
  have d: "fst (transformar 0 [tabla_ejemplo]) = Inr 1" by code_simp
  have e: "fst (limpiar conversor_estricto 0 [tabla_ejemplo]) = Inr (2, \<lparr> filas_eliminadas = 0, advertencias_limpieza = [] \<rparr>)"
    by code_simp
  show ?thesis
    using a b c d e etapas_no_mutan_entrada[of "[tabla_ejemplo]" esquema_por_defecto 0 conversor_estricto filtro_a filtro_b]
    by simp
qed


section \<open>What the cleaner guarantees\<close>

text \<open>
  C10: for every input table that has the columns fecha, cantidad, precio and costo,
  LimpiadorDatos.limpiar returns (it does not raise), and the table it returns has no
  missing value in fecha, and each cell of its columns cantidad, precio and costo is a
  number that is at least 0.
\<close>

theorem limpiar_postcondicion:
  assumes "r < length s" and "columnas_de_limpieza (s ! r)"
  shows "\<exists>r' rl. fst (limpiar cv r s) = Inr (r', rl)
          \<and> r' < length (snd (limpiar cv r s))
          \<and> columnas_de_limpieza (snd (limpiar cv r s) ! r')
          \<and> todas con_valor ''fecha'' (snd (limpiar cv r s) ! r')
          \<and> todas no_negativa ''cantidad'' (snd (limpiar cv r s) ! r')
          \<and> todas no_negativa ''precio'' (snd (limpiar cv r s) ! r')
          \<and> todas no_negativa ''costo'' (snd (limpiar cv r s) ! r')"
proof -
  from limpiar_ejecucion[OF assms, of cv] obtain r' rl where
    "fst (limpiar cv r s) = Inr (r', rl)" "r' < length (snd (limpiar cv r s))"
    "snd (limpiar cv r s) ! r' = tabla_limpia cv (s ! r)"
    by blast
  moreover have "columnas_de_limpieza (tabla_limpia cv (s ! r))"
    using unica_etapas(8)[OF assms(2), of _ cv] by (simp add: columnas_de_limpieza_def)
  ultimately show ?thesis
    using limpia_sin_negativos[OF assms(2), of cv] limpia_con_fecha[OF assms(2), of cv]
    by auto
qed

text \<open>
  The theorem at a table of one row whose price and cost are negative.
\<close>

theorem limpiar_postcondicion_witness:
  "(0::nat) < length [tabla_negativos] \<and> columnas_de_limpieza ([tabla_negativos] ! 0)
   \<and> fst (limpiar conversor_estricto 0 [tabla_negativos])
       = Inr (4, \<lparr> filas_eliminadas = 1, advertencias_limpieza =
               [FilasNegativasEliminadas ''precio'' 1, FilasNegativasEliminadas ''costo'' 1] \<rparr>)
   \<and> (\<exists>r' rl. fst (limpiar conversor_estricto 0 [tabla_negativos]) = Inr (r', rl)
          \<and> r' < length (snd (limpiar conversor_estricto 0 [tabla_negativos]))
          \<and> columnas_de_limpieza (snd (limpiar conversor_estricto 0 [tabla_negativos]) ! r')
          \<and> todas con_valor ''fecha'' (snd (limpiar conversor_estricto 0 [tabla_negativos]) ! r')
          \<and> todas no_negativa ''cantidad'' (snd (limpiar conversor_estricto 0 [tabla_negativos]) ! r')
          \<and> todas no_negativa ''precio'' (snd (limpiar conversor_estricto 0 [tabla_negativos]) ! r')
          \<and> todas no_negativa ''costo'' (snd (limpiar conversor_estricto 0 [tabla_negativos]) ! r'))"
proof -
  have a: "(0::nat) < length [tabla_negativos]" by simp
  have b: "columnas_de_limpieza ([tabla_negativos] ! 0)" by code_simp
  have c: "fst (limpiar conversor_estricto 0 [tabla_negativos])
       = Inr (4, \<lparr> filas_eliminadas = 1, advertencias_limpieza =
               [FilasNegativasEliminadas ''precio'' 1, FilasNegativasEliminadas ''costo'' 1] \<rparr>)"
    by code_simp
  from a b c limpiar_postcondicion[OF a b, of conversor_estricto] show ?thesis by simp
qed


section \<open>The counts and warnings of the cleaner\<close>

text \<open>
  C5 (as stated): each drop's reported count is evaluated against the table after the
  prior drops. On a table of one row with a negative price and a negative cost the code
  reports one row of negative cost, although no row is left after the drop by price:
  the warnings of the code differ from the warnings counted sequentially.
\<close>

theorem limpiar_conteo_costo_no_secuencial:
  "fst (limpiar conversor_estricto 0 [tabla_negativos])
     = Inr (4, \<lparr> filas_eliminadas = 1,
                  advertencias_limpieza =
                    [FilasNegativasEliminadas ''precio'' 1,
                     FilasNegativasEliminadas ''costo'' 1] \<rparr>)
   \<and> negativas ''costo'' (tras_precio conversor_estricto tabla_negativos) = 0
   \<and> avisos_secuenciales conversor_estricto tabla_negativos
       = [FilasNegativasEliminadas ''precio'' 1]"
  by code_simp

text \<open>
  C5 (amended): for every input table that has the columns fecha, cantidad, precio and
  costo, LimpiadorDatos.limpiar returns the table obtained by dropping in sequence the
  rows of negative quantity, then of negative price, then of negative cost; the count
  reported for quantity is taken on the table after the conversions, the counts
  reported for price and for cost are both taken on the table after the drop by
  quantity (the count for cost before the drop by price); rows_removed is the initial
  row count minus the final row count; and the warnings are in the order of the checks:
  dates, the three conversions, the three drops.
\<close>

theorem limpiar_conteos_y_avisos:
  assumes "r < length s" and "columnas_de_limpieza (s ! r)"
  shows "\<exists>r'. fst (limpiar cv r s)
            = Inr (r', \<lparr> filas_eliminadas =
                           int (indice (s ! r)) - int (indice (snd (limpiar cv r s) ! r')),
                         advertencias_limpieza =
                           aviso_fechas cv (s ! r)
                           @ aviso_nulos cv ''cantidad'' (tras_fechas cv (s ! r))
                           @ aviso_nulos cv ''precio'' (tras_cantidad_num cv (s ! r))
                           @ aviso_nulos cv ''costo'' (tras_precio_num cv (s ! r))
                           @ aviso_negativas ''cantidad''
                               (negativas ''cantidad'' (tras_numericas cv (s ! r)))
                           @ aviso_negativas ''precio''
                               (negativas ''precio'' (tras_cantidad cv (s ! r)))
                           @ aviso_negativas ''costo''
                               (negativas ''costo'' (tras_cantidad cv (s ! r))) \<rparr>)
          \<and> r' < length (snd (limpiar cv r s))
          \<and> snd (limpiar cv r s) ! r'
              = descartar ''costo'' (negativas ''costo'' (tras_cantidad cv (s ! r)))
                  (descartar ''precio'' (negativas ''precio'' (tras_cantidad cv (s ! r)))
                     (descartar ''cantidad'' (negativas ''cantidad'' (tras_numericas cv (s ! r)))
                        (tras_numericas cv (s ! r))))"
proof -
  from limpiar_ejecucion[OF assms, of cv] obtain r' where
    run: "fst (limpiar cv r s)
            = Inr (r', \<lparr> filas_eliminadas =
                           int (indice (s ! r)) - int (indice (tabla_limpia cv (s ! r))),
                         advertencias_limpieza = avisos_limpieza cv (s ! r) \<rparr>)"
    and r': "r' < length (snd (limpiar cv r s))"
    and t: "snd (limpiar cv r s) ! r' = tabla_limpia cv (s ! r)"
    by blast
  have e: "tabla_limpia cv (s ! r)
     = descartar ''costo'' (negativas ''costo'' (tras_cantidad cv (s ! r)))
                  (descartar ''precio'' (negativas ''precio'' (tras_cantidad cv (s ! r)))
                     (descartar ''cantidad'' (negativas ''cantidad'' (tras_numericas cv (s ! r)))
                        (tras_numericas cv (s ! r))))"
    by (simp add: tabla_limpia_def tras_precio_def tras_cantidad_def)
  show ?thesis
    by (rule exI[of _ r']) (simp add: run r' t e[symmetric] avisos_limpieza_def)
qed

text \<open>
  The theorem at the table of one row whose price and cost are negative: both warnings
  report one row, and one row is removed.
\<close>

theorem limpiar_conteos_y_avisos_witness:
  "(0::nat) < length [tabla_negativos] \<and> columnas_de_limpieza ([tabla_negativos] ! 0)
   \<and> negativas ''precio'' (tras_cantidad conversor_estricto tabla_negativos) = 1
   \<and> negativas ''costo'' (tras_cantidad conversor_estricto tabla_negativos) = 1
   \<and> (\<exists>r'. fst (limpiar conversor_estricto 0 [tabla_negativos])
            = Inr (r', \<lparr> filas_eliminadas =
                           int (indice tabla_negativos)
                           - int (indice (snd (limpiar conversor_estricto 0 [tabla_negativos]) ! r')),
                         advertencias_limpieza =
                           [FilasNegativasEliminadas ''precio'' 1,
                            FilasNegativasEliminadas ''costo'' 1] \<rparr>)
          \<and> r' < length (snd (limpiar conversor_estricto 0 [tabla_negativos])))"
proof -
  have a: "(0::nat) < length [tabla_negativos]" by simp
  have b: "columnas_de_limpieza ([tabla_negativos] ! 0)" by code_simp
  have c: "aviso_fechas conversor_estricto tabla_negativos = []"
    "aviso_nulos conversor_estricto ''cantidad'' (tras_fechas conversor_estricto tabla_negativos) = []"
    "aviso_nulos conversor_estricto ''precio'' (tras_cantidad_num conversor_estricto tabla_negativos) = []"
    "aviso_nulos conversor_estricto ''costo'' (tras_precio_num conversor_estricto tabla_negativos) = []"
    "negativas ''cantidad'' (tras_numericas conversor_estricto tabla_negativos) = 0"
    "negativas ''precio'' (tras_cantidad conversor_estricto tabla_negativos) = 1"
    "negativas ''costo'' (tras_cantidad conversor_estricto tabla_negativos) = 1"
    by code_simp+
  from limpiar_conteos_y_avisos[OF a b, of conversor_estricto] a b c show ?thesis
    by (auto simp: aviso_negativas_def)
qed


section \<open>The validator on text in a numeric column\<close>

text \<open>
  C3: validation never raises and returns a result structure for every content of the
  quantity, price and cost columns, text included. On a table of one row whose quantity
  is the text \<^verbatim>\<open>abc\<close>, \<^verbatim>\<open>ValidadorEsquemaCSV.validar\<close> records the error of the
  column that is not convertible and then raises \<^verbatim>\<open>TypeError\<close> at the comparison
  \<^verbatim>\<open>tabla["cantidad"] < 0\<close> of line 74, whatever the conversions of pandas do: no result
  structure is returned.
\<close>

theorem validar_lanza_con_texto:
  "validar cv esquema_por_defecto configuracion_por_defecto tabla_texto_en_cantidad = Inl TypeError"
  by (simp add: validar_def esquema_por_defecto_def configuracion_por_defecto_def
        tabla_texto_en_cantidad_def fila_ejemplo_def etiquetas_def Let_def
        hay_vacios_def hay_negativos_def serie_def seleccionar_def entonces_def alguno_def es_nulo_def)

text \<open>
  C4: the numeric-convertibility errors of quantity, price and cost accumulate in one
  result. On a table of one row whose quantity and price are both text no result is
  returned at all: \<^verbatim>\<open>validar\<close> raises \<^verbatim>\<open>TypeError\<close> at line 74 after recording the two
  errors. (By \<open>validar_sin_error_numerico\<close> no result that \<^verbatim>\<open>validar\<close> returns holds
  a numeric-convertibility error; the two short-circuits are
  \<open>validar_excede_maximo\<close> and \<open>validar_faltan_columnas\<close>.)
\<close>

theorem validar_lanza_con_dos_textos:
  "validar cv esquema_por_defecto configuracion_por_defecto tabla_texto_en_dos = Inl TypeError"
  by (simp add: validar_def esquema_por_defecto_def configuracion_por_defecto_def
        tabla_texto_en_dos_def fila_ejemplo_def etiquetas_def Let_def
        hay_vacios_def hay_negativos_def serie_def seleccionar_def entonces_def alguno_def es_nulo_def)


section \<open>The names given by the normaliser\<close>

text \<open>
  C6 (as stated): each of the names \<^verbatim>\<open>" Regi\<close>o\<^verbatim>\<open>n "\<close>, \<^verbatim>\<open>"r\<close>e\<^verbatim>\<open>gion"\<close> (accented e) and
  \<^verbatim>\<open>"REGION"\<close> is renamed to \<^verbatim>\<open>region\<close>. The name with the accented e is no alias of the
  schema and no step removes an accent: the table whose only column has that name is
  not returned with the column \<^verbatim>\<open>region\<close>.
\<close>

theorem normalizar_conserva_e_acentuada:
  "contenido (normalizar esquema_por_defecto 0) [tabla_una_columna region_con_e_acentuada]
     \<noteq> Inr (tabla_una_columna ''region'')"
  by code_simp

text \<open>
  C6 (amended): \<^verbatim>\<open>NormalizadorColumnas.normalizar\<close> returns the table with every column
  name replaced by its standard name, which does not depend on the casing of the name
  nor on whitespace around it, holds no whitespace, and in which each run of inner
  whitespace has become one underscore (two words separated by whitespace give the two
  words in lower case joined by one underscore); an accented letter is kept unless the
  cleaned name is an alias of the schema. In particular \<^verbatim>\<open>" Regi\<close>o\<^verbatim>\<open>n "\<close> (accented o, an alias) and \<^verbatim>\<open>"REGION"\<close> are
  renamed to \<^verbatim>\<open>region\<close>, while \<^verbatim>\<open>"r\<close>e\<^verbatim>\<open>gion"\<close> (accented e) keeps its name.
\<close>

theorem normalizar_renombra:
  "(r < length s \<longrightarrow>
      contenido (normalizar esquema r) s
        = Inr ((s ! r) \<lparr> columnas :=
                 map (\<lambda>(c, xs). (nombre_estandar esquema c, xs)) (columnas (s ! r)) \<rparr>))
   \<and> (lower a = lower b \<longrightarrow> nombre_estandar esquema a = nombre_estandar esquema b)
   \<and> (list_all es_espacio u \<and> list_all es_espacio v
        \<longrightarrow> nombre_estandar esquema (u @ a @ v) = nombre_estandar esquema a)
   \<and> nombre_estandar esquema_por_defecto ''  Id   Orden ''
       = nombre_estandar esquema_por_defecto ''id orden''
   \<and> nombre_estandar esquema_por_defecto region_con_o_acentuada = ''region''
   \<and> nombre_estandar esquema_por_defecto ''REGION'' = ''region''
   \<and> nombre_estandar esquema_por_defecto region_con_e_acentuada = region_con_e_acentuada
   \<and> region_con_e_acentuada \<noteq> ''region''
   \<and> nombre_estandar esquema_por_defecto ''  Id   Orden '' = ''id_orden''
   \<and> list_all (\<lambda>c. \<not> es_espacio c) (limpiar_nombre_columna a)
   \<and> (list_all (\<lambda>c. \<not> es_espacio c) p \<and> p \<noteq> [] \<and> list_all es_espacio w \<and> w \<noteq> []
        \<and> list_all (\<lambda>c. \<not> es_espacio c) q \<and> q \<noteq> []
        \<longrightarrow> limpiar_nombre_columna (p @ w @ q) = lower p @ CHR ''_'' # lower q)"
proof -
  have 1: "lower a = lower b \<Longrightarrow> nombre_estandar esquema a = nombre_estandar esquema b"
    by (simp add: nombre_estandar_def limpiar_nombre_sin_caja[of a b])
  have 2: "list_all es_espacio u \<Longrightarrow> list_all es_espacio v
             \<Longrightarrow> nombre_estandar esquema (u @ a @ v) = nombre_estandar esquema a"
    by (simp add: nombre_estandar_def limpiar_nombre_rodeado)
  have 3: "nombre_estandar esquema_por_defecto ''  Id   Orden ''
             = nombre_estandar esquema_por_defecto ''id orden''"
    by code_simp
  have 4: "list_all (\<lambda>c. \<not> es_espacio c) p \<and> p \<noteq> [] \<and> list_all es_espacio w \<and> w \<noteq> []
             \<and> list_all (\<lambda>c. \<not> es_espacio c) q \<and> q \<noteq> []
           \<longrightarrow> limpiar_nombre_columna (p @ w @ q) = lower p @ CHR ''_'' # lower q"
    using limpiar_nombre_dos_palabras[of p w q] by blast
  from contenido_normalizar[of r s esquema] 1 2 3 4 nombres_de_ejemplo
       limpiar_nombre_sin_espacios[of a]
  show ?thesis by blast
qed

theorem normalizar_renombra_witness:
  "contenido (normalizar esquema_por_defecto 0) [tabla_una_columna region_con_o_acentuada]
     = Inr (tabla_una_columna ''region'')
   \<and> nombre_estandar esquema_por_defecto ''REGION'' = nombre_estandar esquema_por_defecto ''region''
   \<and> nombre_estandar esquema_por_defecto ('' '' @ ''REGION'' @ ''  '')
       = nombre_estandar esquema_por_defecto ''REGION''
   \<and> limpiar_nombre_columna (''Id'' @ ''   '' @ ''Orden'') = ''id_orden''"
proof -
  have a: "(0::nat) < length [tabla_una_columna region_con_o_acentuada]" by simp
  have b: "lower ''REGION'' = lower ''region''" by code_simp
  have c: "list_all es_espacio '' ''" "list_all es_espacio ''  ''" by code_simp+
  have d: "[tabla_una_columna region_con_o_acentuada] ! 0 = tabla_una_columna region_con_o_acentuada"
    by simp
  have e: "list_all (\<lambda>c. \<not> es_espacio c) ''Id''" "list_all es_espacio ''   ''"
    "list_all (\<lambda>c. \<not> es_espacio c) ''Orden''" "lower ''Id'' = ''id''"
    "lower ''Orden'' = ''orden''"
    by code_simp+
  from normalizar_renombra[where r = 0 and s = "[tabla_una_columna region_con_o_acentuada]"
         and esquema = esquema_por_defecto and a = "''REGION''" and b = "''region''"
         and u = "'' ''" and v = "''  ''" and p = "''Id''" and w = "''   ''"
         and q = "''Orden''"] a b c e
  show ?thesis
    by (simp add: tabla_una_columna_def)
qed

section \<open>The forecast\<close>




section \<open>The leading product and the concentration risk\<close>

text \<open>
  C9 (as stated): for every non-empty current subset a leading-product insight is
  emitted, and the concentration insight is emitted exactly when the share of the
  leading product in the total current revenue is at least 60 per cent. On a table of
  one row without product id no leading-product insight is emitted; and on a table
  whose rows have revenue 60 for P1, 30 for P2 and 20 without product id, the
  concentration insight is emitted (with 200/3 per cent, the share among the rows that
  have a product id) although P1 holds less than 60 per cent of the total revenue 110.
  Neither table has two groups of equal revenue, so the ordering plays no part.
\<close>

theorem generar_sin_insight_de_producto:
  "\<not> vacia tabla_sin_producto
   \<and> generar orden_estable tabla_sin_producto tabla_sin_filas ''''
       = Inr [\<lparr> titulo = titulo_sin_referencia, mensaje = MensajeSinReferencia,
                 tipo = ''neutral'' \<rparr>,
              \<lparr> titulo = titulo_region, mensaje = MensajeRegionLider (Texto ''Norte'') 100 100,
                 tipo = ''positivo'' \<rparr>,
              \<lparr> titulo = titulo_canal, mensaje = MensajeCanalFuerte (Texto ''Web'') 100,
                 tipo = ''neutral'' \<rparr>]
   \<and> generar orden_estable tabla_mixta tabla_sin_filas ''''
       = Inr [\<lparr> titulo = titulo_sin_referencia, mensaje = MensajeSinReferencia,
                 tipo = ''neutral'' \<rparr>,
              \<lparr> titulo = titulo_region, mensaje = MensajeRegionLider (Texto ''Norte'') 100 110,
                 tipo = ''positivo'' \<rparr>,
              \<lparr> titulo = titulo_canal, mensaje = MensajeCanalFuerte (Texto ''Web'') 110,
                 tipo = ''neutral'' \<rparr>,
              \<lparr> titulo = titulo_producto, mensaje = MensajeProductoLider (Texto ''P1'') 60 10,
                 tipo = ''negativo'' \<rparr>,
              \<lparr> titulo = titulo_concentracion,
                 mensaje = MensajeConcentracion (200 / 3) (Texto ''P1''),
                 tipo = ''negativo'' \<rparr>]
   \<and> sumar (numeros tabla_mixta ''ingresos'') = 110
   \<and> 60 / sumar (numeros tabla_mixta ''ingresos'') * 100 < 60"
  by code_simp

text \<open>
  C9 (amended): for every non-empty current subset (a sales table, with a reference
  table that is empty or has a numeric revenue column) and every valid ordering of
  pandas, \<^verbatim>\<open>GeneradorInsights.generar\<close> returns, and when some row has a product id it
  emits exactly one leading-product insight, for the first group in descending order
  of revenue among the groups of the rows by product id, a group of largest revenue
  (which one, among several groups of the same largest revenue, is the choice of the
  ordering), whose category is positive exactly when the margin ratio of that group is
  at least 15 per cent (the ratio taken as 0 when its revenue is not positive) and
  negative otherwise; independently and additionally it emits one negative
  concentration-risk insight exactly when the share of the leading product in the
  revenue of the rows that have a product id is at least 60 per cent. When no row has a
  product id neither of the two insights is emitted. With a single product holding a
  70 per cent share both insights are present. Floats are read as real numbers.
\<close>

theorem generar_producto_y_concentracion:
  "(orden_valida orden \<and> tabla_de_ventas t \<and> \<not> vacia t \<and> tabla_de_referencia a \<longrightarrow>
      (\<exists>ins. generar orden t a descripcion = Inr ins
         \<and> de_titulo titulo_producto ins
             = (if list_ex con_valor (columna t ''id_producto'')
                then [\<lparr> titulo = titulo_producto,
                         mensaje = MensajeProductoLider (fst (producto_lider orden t))
                                     (fst (snd (producto_lider orden t)))
                                     (margen_pct_lider orden t),
                         tipo = (if 15 \<le> margen_pct_lider orden t then ''positivo''
                                 else ''negativo'') \<rparr>]
                else [])
         \<and> de_titulo titulo_concentracion ins
             = (if list_ex con_valor (columna t ''id_producto'')
                   \<and> 60 \<le> participacion_lider orden t
                then [\<lparr> titulo = titulo_concentracion,
                         mensaje = MensajeConcentracion (participacion_lider orden t)
                                     (fst (producto_lider orden t)),
                         tipo = ''negativo'' \<rparr>]
                else [])))
   \<and> (orden_valida orden \<longrightarrow>
        set (grupos_producto orden t)
          = (\<lambda>k. (k, suma_del_grupo (columna t ''id_producto'') (numeros t ''ingresos'') k,
                     suma_del_grupo (columna t ''id_producto'') (numeros t ''margen'') k,
                     suma_del_grupo (columna t ''id_producto'') (numeros t ''cantidad'') k))
            ` {k \<in> set (columna t ''id_producto''). con_valor k}
        \<and> (list_ex con_valor (columna t ''id_producto'')
             \<longrightarrow> producto_lider orden t \<in> set (grupos_producto orden t))
        \<and> (\<forall>g \<in> set (grupos_producto orden t).
              fst (snd g) \<le> fst (snd (producto_lider orden t)))
        \<and> participacion_lider orden t
            = (if 0 < ingresos_de_filas_con_producto t
               then fst (snd (producto_lider orden t)) / ingresos_de_filas_con_producto t * 100
               else 0))
   \<and> margen_pct_lider orden t
       = (if 0 < fst (snd (producto_lider orden t))
          then fst (snd (snd (producto_lider orden t))) / fst (snd (producto_lider orden t)) * 100
          else 0)"
proof -
  have 1: "orden_valida orden \<and> tabla_de_ventas t \<and> \<not> vacia t \<and> tabla_de_referencia a \<longrightarrow>
      (\<exists>ins. generar orden t a descripcion = Inr ins
         \<and> de_titulo titulo_producto ins
             = (if list_ex con_valor (columna t ''id_producto'')
                then [\<lparr> titulo = titulo_producto,
                         mensaje = MensajeProductoLider (fst (producto_lider orden t))
                                     (fst (snd (producto_lider orden t)))
                                     (margen_pct_lider orden t),
                         tipo = (if 15 \<le> margen_pct_lider orden t then ''positivo''
                                 else ''negativo'') \<rparr>]
                else [])
         \<and> de_titulo titulo_concentracion ins
             = (if list_ex con_valor (columna t ''id_producto'')
                   \<and> 60 \<le> participacion_lider orden t
                then [\<lparr> titulo = titulo_concentracion,
                         mensaje = MensajeConcentracion (participacion_lider orden t)
                                     (fst (producto_lider orden t)),
                         tipo = ''negativo'' \<rparr>]
                else []))"
  proof
    assume h: "orden_valida orden \<and> tabla_de_ventas t \<and> \<not> vacia t \<and> tabla_de_referencia a"
    then have v: "orden_valida orden" and "tabla_de_ventas t" "\<not> vacia t" "tabla_de_referencia a"
      by simp_all
    from generar_ejecucion[OF this, of descripcion] obtain previos where
      g: "generar orden t a descripcion = Inr (previos @ insights_de_producto orden t)" and
      p: "list_all (\<lambda>i. titulo i \<noteq> titulo_producto \<and> titulo i \<noteq> titulo_concentracion) previos"
      by blast
    have a: "de_titulo titulo_producto (insights_de_producto orden t)
             = (if list_ex con_valor (columna t ''id_producto'')
                then [\<lparr> titulo = titulo_producto,
                         mensaje = MensajeProductoLider (fst (producto_lider orden t))
                                     (fst (snd (producto_lider orden t)))
                                     (margen_pct_lider orden t),
                         tipo = (if 15 \<le> margen_pct_lider orden t then ''positivo''
                                 else ''negativo'') \<rparr>]
                else [])"
      by (simp add: insights_de_producto_def de_titulo_def grupos_producto_vacio[OF v]
            titulos_distintos titulos_distintos(9)[symmetric] not_le)
    have b: "de_titulo titulo_concentracion (insights_de_producto orden t)
             = (if list_ex con_valor (columna t ''id_producto'')
                   \<and> 60 \<le> participacion_lider orden t
                then [\<lparr> titulo = titulo_concentracion,
                         mensaje = MensajeConcentracion (participacion_lider orden t)
                                     (fst (producto_lider orden t)),
                         tipo = ''negativo'' \<rparr>]
                else [])"
      by (simp add: insights_de_producto_def de_titulo_def grupos_producto_vacio[OF v]
            titulos_distintos titulos_distintos(9)[symmetric])
    from g de_titulo_previos[OF p, of "insights_de_producto orden t"] a b
    show "\<exists>ins. generar orden t a descripcion = Inr ins
         \<and> de_titulo titulo_producto ins
             = (if list_ex con_valor (columna t ''id_producto'')
                then [\<lparr> titulo = titulo_producto,
                         mensaje = MensajeProductoLider (fst (producto_lider orden t))
                                     (fst (snd (producto_lider orden t)))
                                     (margen_pct_lider orden t),
                         tipo = (if 15 \<le> margen_pct_lider orden t then ''positivo''
                                 else ''negativo'') \<rparr>]
                else [])
         \<and> de_titulo titulo_concentracion ins
             = (if list_ex con_valor (columna t ''id_producto'')
                   \<and> 60 \<le> participacion_lider orden t
                then [\<lparr> titulo = titulo_concentracion,
                         mensaje = MensajeConcentracion (participacion_lider orden t)
                                     (fst (producto_lider orden t)),
                         tipo = ''negativo'' \<rparr>]
                else [])"
      by simp
  qed
  have 2: "orden_valida orden \<longrightarrow>
        set (grupos_producto orden t)
          = (\<lambda>k. (k, suma_del_grupo (columna t ''id_producto'') (numeros t ''ingresos'') k,
                     suma_del_grupo (columna t ''id_producto'') (numeros t ''margen'') k,
                     suma_del_grupo (columna t ''id_producto'') (numeros t ''cantidad'') k))
            ` {k \<in> set (columna t ''id_producto''). con_valor k}
        \<and> (list_ex con_valor (columna t ''id_producto'')
             \<longrightarrow> producto_lider orden t \<in> set (grupos_producto orden t))
        \<and> (\<forall>g \<in> set (grupos_producto orden t).
              fst (snd g) \<le> fst (snd (producto_lider orden t)))
        \<and> participacion_lider orden t
            = (if 0 < ingresos_de_filas_con_producto t
               then fst (snd (producto_lider orden t)) / ingresos_de_filas_con_producto t * 100
               else 0)"
  proof
    assume v: "orden_valida orden"
    have p: "participacion_lider orden t
            = (if 0 < ingresos_de_filas_con_producto t
               then fst (snd (producto_lider orden t)) / ingresos_de_filas_con_producto t * 100
               else 0)"
      by (simp add: participacion_lider_def ingresos_con_producto_filas[OF v])
    have m: "\<forall>g \<in> set (grupos_producto orden t).
              fst (snd g) \<le> fst (snd (producto_lider orden t))"
      by (simp add: lider_es_maximo[OF v])
    have l: "list_ex con_valor (columna t ''id_producto'')
             \<longrightarrow> producto_lider orden t \<in> set (grupos_producto orden t)"
      by (simp add: lider_en_grupos[OF v])
    show "set (grupos_producto orden t)
          = (\<lambda>k. (k, suma_del_grupo (columna t ''id_producto'') (numeros t ''ingresos'') k,
                     suma_del_grupo (columna t ''id_producto'') (numeros t ''margen'') k,
                     suma_del_grupo (columna t ''id_producto'') (numeros t ''cantidad'') k))
            ` {k \<in> set (columna t ''id_producto''). con_valor k}
        \<and> (list_ex con_valor (columna t ''id_producto'')
             \<longrightarrow> producto_lider orden t \<in> set (grupos_producto orden t))
        \<and> (\<forall>g \<in> set (grupos_producto orden t).
              fst (snd g) \<le> fst (snd (producto_lider orden t)))
        \<and> participacion_lider orden t
            = (if 0 < ingresos_de_filas_con_producto t
               then fst (snd (producto_lider orden t)) / ingresos_de_filas_con_producto t * 100
               else 0)"
      by (intro conjI grupos_producto_conjunto[OF v] l m p)
  qed
  have 3: "margen_pct_lider orden t
       = (if 0 < fst (snd (producto_lider orden t))
          then fst (snd (snd (producto_lider orden t))) / fst (snd (producto_lider orden t)) * 100
          else 0)"
    by (simp add: margen_pct_lider_def)
  show ?thesis by (intro conjI 1 2 3)
qed

lemma tabla_70_de_ventas:
  "tabla_de_ventas tabla_70" "\<not> vacia tabla_70" "tabla_de_referencia tabla_sin_filas"
  "list_ex con_valor (columna tabla_70 ''id_producto'')"
  "producto_lider orden_estable tabla_70 = (Texto ''P1'', 70, 20, 2)"
  "margen_pct_lider orden_estable tabla_70 = 200 / 7"
  "participacion_lider orden_estable tabla_70 = 70"
  by code_simp+

lemma tabla_empate_de_ventas:
  "tabla_de_ventas tabla_empate" "\<not> vacia tabla_empate"
  "list_ex con_valor (columna tabla_empate ''id_producto'')"
  "producto_lider orden_estable tabla_empate = (Texto ''P1'', 50, 5, 1)"
  "margen_pct_lider orden_estable tabla_empate = 10"
  "participacion_lider orden_estable tabla_empate = 50"
  by code_simp+

theorem generar_producto_y_concentracion_witness:
  "orden_valida orden_estable
   \<and> tabla_de_ventas tabla_70 \<and> \<not> vacia tabla_70 \<and> tabla_de_referencia tabla_sin_filas
   \<and> participacion_lider orden_estable tabla_70 = 70
   \<and> (\<exists>ins. generar orden_estable tabla_70 tabla_sin_filas '''' = Inr ins
         \<and> de_titulo titulo_producto ins
             = [\<lparr> titulo = titulo_producto,
                   mensaje = MensajeProductoLider (Texto ''P1'') 70 (200 / 7),
                   tipo = ''positivo'' \<rparr>]
         \<and> de_titulo titulo_concentracion ins
             = [\<lparr> titulo = titulo_concentracion,
                   mensaje = MensajeConcentracion 70 (Texto ''P1''),
                   tipo = ''negativo'' \<rparr>])
   \<and> tabla_de_ventas tabla_empate \<and> \<not> vacia tabla_empate
   \<and> (\<exists>ins. generar orden_estable tabla_empate tabla_sin_filas '''' = Inr ins
         \<and> de_titulo titulo_producto ins
             = [\<lparr> titulo = titulo_producto,
                   mensaje = MensajeProductoLider (Texto ''P1'') 50 10,
                   tipo = ''negativo'' \<rparr>]
         \<and> de_titulo titulo_concentracion ins = [])
   \<and> producto_lider orden_estable tabla_70 \<in> set (grupos_producto orden_estable tabla_70)"
proof -
  note T = generar_producto_y_concentracion[where orden = orden_estable
             and a = tabla_sin_filas and descripcion = "''''"]
  from T[where t = tabla_70, THEN conjunct1] orden_estable_valida tabla_70_de_ventas
  have a: "\<exists>ins. generar orden_estable tabla_70 tabla_sin_filas '''' = Inr ins
         \<and> de_titulo titulo_producto ins
             = [\<lparr> titulo = titulo_producto,
                   mensaje = MensajeProductoLider (Texto ''P1'') 70 (200 / 7),
                   tipo = ''positivo'' \<rparr>]
         \<and> de_titulo titulo_concentracion ins
             = [\<lparr> titulo = titulo_concentracion,
                   mensaje = MensajeConcentracion 70 (Texto ''P1''),
                   tipo = ''negativo'' \<rparr>]"
    by simp
  from T[where t = tabla_empate, THEN conjunct1] orden_estable_valida tabla_empate_de_ventas
       tabla_70_de_ventas(3)
  have b: "\<exists>ins. generar orden_estable tabla_empate tabla_sin_filas '''' = Inr ins
         \<and> de_titulo titulo_producto ins
             = [\<lparr> titulo = titulo_producto,
                   mensaje = MensajeProductoLider (Texto ''P1'') 50 10,
                   tipo = ''negativo'' \<rparr>]
         \<and> de_titulo titulo_concentracion ins = []"
    by simp
  from T[where t = tabla_70, THEN conjunct2, THEN conjunct1] orden_estable_valida
       tabla_70_de_ventas(4)
  have c: "producto_lider orden_estable tabla_70 \<in> set (grupos_producto orden_estable tabla_70)"
    by blast
  from a b c orden_estable_valida tabla_70_de_ventas tabla_empate_de_ventas
  show ?thesis by simp
qed


end
